theory Spec2Isabelle
  imports
    Complex_Main
    "HOL-Library.AList"
    "HOL-Library.Sublist"
    "HOL-Library.Char_ord"
    "HOL-Library.List_Lexorder"
begin

section \<open>Strings and truthiness\<close>

text \<open>
  JavaScript strings are modelled as \<^typ>\<open>string\<close>, a list of characters, one for
  each code unit. \<open>String.prototype.toLowerCase\<close> is a built-in of the language that
  folds every cased letter of Unicode. Nothing is assumed about it: each function of the
  registry that calls it takes it as the parameter \<open>toLowerCase\<close>, and the properties
  proved below hold for every such function.
\<close>

type_synonym lower_case = "string \<Rightarrow> string"

text \<open>
  For the examples: what \<open>toLowerCase\<close> does on a string whose characters are the code
  points below 256. The letters \<open>A\<close> .. \<open>Z\<close> (65 .. 90) and the letters from 192 to 222
  other than the multiplication sign 215 have the bit of value 32 clear; setting it gives
  the lower-case letter. Every other code point below 256 is left as it is.
\<close>

definition lowerChar :: "char \<Rightarrow> char" where
  "lowerChar c =
     (if (CHR ''A'' \<le> c \<and> c \<le> CHR ''Z'') \<or> (CHR 0xC0 \<le> c \<and> c \<le> CHR 0xDE \<and> c \<noteq> CHR 0xD7)
      then (case c of Char b0 b1 b2 b3 b4 b5 b6 b7 \<Rightarrow> Char b0 b1 b2 b3 b4 True b6 b7)
      else c)"

definition latin1LowerCase :: lower_case where
  "latin1LowerCase s = map lowerChar s"

text \<open>\<open>q.includes(s)\<close>: \<open>s\<close> occurs in \<open>q\<close> as a contiguous run of characters.\<close>

definition strIncludes :: "string \<Rightarrow> string \<Rightarrow> bool" where
  "strIncludes q s = sublist s q"

text \<open>
  An optional string property used as a condition (\<open>if (tool.category)\<close>,
  \<open>validatedTool.id || uuidv4()\<close>): absent and the empty string are both falsy.
\<close>

definition truthy :: "string option \<Rightarrow> bool" where
  "truthy x = (case x of None \<Rightarrow> False | Some s \<Rightarrow> s \<noteq> [])"

section \<open>Numbers\<close>

text \<open>
  JavaScript numbers are IEEE 754 doubles. A finite double is modelled by the real number
  it denotes, and an arithmetic operation of the source by the exact operation followed by
  the rounding of its result to a double. The rounding is the parameter \<open>rnd\<close> of every
  function that computes with fractions; nothing is assumed about it. Counters and the
  sums of the integers 10, 5 and 3 stay below \<open>2^53\<close>, where doubles are exact: they are
  computed exactly.
\<close>

type_synonym rounding = "real \<Rightarrow> real"

definition mulD :: "rounding \<Rightarrow> real \<Rightarrow> real \<Rightarrow> real" where
  "mulD rnd x y = rnd (x * y)"

definition addD :: "rounding \<Rightarrow> real \<Rightarrow> real \<Rightarrow> real" where
  "addD rnd x y = rnd (x + y)"

definition divD :: "rounding \<Rightarrow> real \<Rightarrow> real \<Rightarrow> real" where
  "divD rnd x y = rnd (x / y)"

text \<open>
  For the examples: rounding to the nearest double, ties to the even significand, for
  results within the range of the finite doubles. \<open>binaryExponent x\<close> is the \<open>e\<close> with
  \<open>2^e \<le> |x| < 2^(e+1)\<close>; a double has 53 significant bits, so its last bit is worth
  \<open>2^(e-52)\<close>, and no less than \<open>2^(-1074)\<close>.
\<close>

definition roundHalfEven :: "real \<Rightarrow> int" where
  "roundHalfEven x =
     (let f = \<lfloor>x\<rfloor>; d = x - of_int f
      in if d < 1 / 2 then f else if 1 / 2 < d then f + 1 else if even f then f else f + 1)"

fun log2floor :: "nat \<Rightarrow> nat" where
  "log2floor n = (if n < 2 then 0 else Suc (log2floor (n div 2)))"

declare log2floor.simps [simp del]

definition binaryExponent :: "real \<Rightarrow> int" where
  "binaryExponent x =
     (if 1 \<le> \<bar>x\<bar> then int (log2floor (nat \<lfloor>\<bar>x\<bar>\<rfloor>))
      else - int (Suc (log2floor (nat (\<lceil>1 / \<bar>x\<bar>\<rceil> - 1)))))"

definition pow2 :: "int \<Rightarrow> real" where
  "pow2 k = (if 0 \<le> k then 2 ^ nat k else 1 / 2 ^ nat (- k))"

definition roundDouble :: rounding where
  "roundDouble x =
     (if x = 0 then 0
      else (let ulp = pow2 (max (binaryExponent x) (- 1022) - 52)
            in of_int (roundHalfEven (x / ulp)) * ulp))"

section \<open>The tool registry (src/tools/registry.js)\<close>

text \<open>The \<open>execute\<close> property of a tool is a function; the model keeps an opaque handle.\<close>

datatype handler = Handler string

text \<open>
  A tool definition is a JavaScript object; every property may be absent.
  \<open>tool_id\<close> is the property \<open>id\<close> and \<open>toolKeywords\<close> the property \<open>keywords\<close>.
\<close>

record tool =
  tool_id :: "string option"
  name :: "string option"
  description :: "string option"
  category :: "string option"
  capabilities :: "string list option"
  toolKeywords :: "string list option"
  inputTypes :: "string list option"
  outputTypes :: "string list option"
  execute :: "handler option"

record tool_stats =
  successCount :: nat
  failureCount :: nat
  averageExecutionTime :: real
  totalExecutions :: nat
  lastUsed :: "string option"

text \<open>
  \<open>class ToolRegistry extends Map\<close>: \<open>tools\<close> holds the entries of the map itself, in
  insertion order (\<open>Map.set\<close> on a present key keeps its position, which is
  \<^const>\<open>AList.update\<close>). \<open>usageStats\<close> is a \<open>Map\<close> as well. The source keeps the name,
  capability and keyword indices in one \<open>Map\<close>, \<open>metadataIndex\<close>, under the key prefixes
  \<open>name:\<close>, \<open>capability:\<close> and \<open>keyword:\<close>; the prefixes differ in their first character,
  so the three key spaces are disjoint, and the record has one map for each prefix, keyed
  by what follows the prefix. \<open>allCapabilities\<close> is the \<open>Set\<close> \<open>this.capabilities\<close>.
\<close>

record registry =
  tools :: "(string \<times> tool) list"
  categories :: "string \<rightharpoonup> string set"
  allCapabilities :: "string set"
  nameIndex :: "string \<rightharpoonup> string"
  capabilityIndex :: "string \<rightharpoonup> string set"
  keywordIndex :: "string \<rightharpoonup> string set"
  usageStats :: "(string \<times> tool_stats) list"

definition emptyRegistry :: registry where
  "emptyRegistry =
     \<lparr>tools = [], categories = Map.empty, allCapabilities = {}, nameIndex = Map.empty,
      capabilityIndex = Map.empty, keywordIndex = Map.empty, usageStats = []\<rparr>"

subsection \<open>recordToolUsage\<close>

text \<open>
  The argument \<open>stats\<close> of \<open>recordToolUsage\<close>: \<open>executionTime\<close> is \<open>Some d\<close> exactly when
  \<open>typeof stats.executionTime === 'number'\<close> and the number is finite.
\<close>

record usage =
  success :: bool
  executionTime :: "real option"

definition updateCounts :: "usage \<Rightarrow> tool_stats \<Rightarrow> tool_stats" where
  "updateCounts u cur =
     (if success u then cur\<lparr>successCount := successCount cur + 1\<rparr>
      else cur\<lparr>failureCount := failureCount cur + 1\<rparr>)"

definition updateExecutionTime :: "rounding \<Rightarrow> usage \<Rightarrow> tool_stats \<Rightarrow> tool_stats" where
  "updateExecutionTime rnd u cur =
     (case executionTime u of
        None \<Rightarrow> cur
      | Some d \<Rightarrow>
          (let totalExecTime = mulD rnd (averageExecutionTime cur) (real (totalExecutions cur));
               cur' = cur\<lparr>totalExecutions := totalExecutions cur + 1\<rparr>
           in cur'\<lparr>averageExecutionTime :=
                      divD rnd (addD rnd totalExecTime d) (real (totalExecutions cur'))\<rparr>))"

text \<open>\<open>now\<close> is the value of \<open>new Date().toISOString()\<close> at the call.\<close>

definition recordToolUsage ::
  "rounding \<Rightarrow> string \<Rightarrow> usage \<Rightarrow> string \<Rightarrow> registry \<Rightarrow> bool \<times> registry" where
  "recordToolUsage rnd toolId u now r =
     (case map_of (usageStats r) toolId of
        None \<Rightarrow> (False, r)
      | Some currentStats \<Rightarrow>
          (let s1 = updateCounts u currentStats;
               s2 = updateExecutionTime rnd u s1;
               s3 = s2\<lparr>lastUsed := Some now\<rparr>
           in (True, r\<lparr>usageStats := AList.update toolId s3 (usageStats r)\<rparr>)))"

text \<open>The statistics that \<open>registerTool\<close> stores for a new tool.\<close>

definition initialStats :: tool_stats where
  "initialStats =
     \<lparr>successCount = 0, failureCount = 0, averageExecutionTime = 0,
      totalExecutions = 0, lastUsed = None\<rparr>"

subsection \<open>registerTool\<close>

text \<open>
  What a call can throw. \<open>registerTool\<close> catches every error and returns \<open>false\<close>;
  the other methods have no handler.
\<close>

datatype js_error = ValidationError | TypeError

type_synonym validator = "tool \<Rightarrow> js_error + tool"

text \<open>
  Modelled from the spec: \<open>validateToolDefinition\<close> of src/tools/validator.js, which the
  registry imports, is not among the sources. The spec has it validate the required fields
  \<open>name\<close> and \<open>execute\<close> (all others optional) and fail with \<open>ValidationError\<close>; it
  receives the definition alone. The functions below take the validator as a parameter.
\<close>

definition validateToolDefinition :: validator where
  "validateToolDefinition toolDefinition =
     (if name toolDefinition = None \<or> execute toolDefinition = None
      then Inl ValidationError else Inr toolDefinition)"

text \<open>\<open>validatedTool.id || uuidv4()\<close>, with \<open>uuid\<close> the value \<open>uuidv4()\<close> returns.\<close>

definition idOrUuid :: "string option \<Rightarrow> string \<Rightarrow> string" where
  "idOrUuid i uuid = (case i of None \<Rightarrow> uuid | Some s \<Rightarrow> if s = [] then uuid else s)"

text \<open>
  \<open>if (!index.has(key)) index.set(key, new Set()); index.get(key).add(toolId)\<close>
\<close>

definition addToIndex ::
  "string \<Rightarrow> string \<Rightarrow> (string \<rightharpoonup> string set) \<Rightarrow> (string \<rightharpoonup> string set)" where
  "addToIndex key toolId idx =
     (case idx key of
        None \<Rightarrow> idx(key \<mapsto> insert toolId {})
      | Some s \<Rightarrow> idx(key \<mapsto> insert toolId s))"

fun indexCapabilities :: "lower_case \<Rightarrow> string \<Rightarrow> string list \<Rightarrow> registry \<Rightarrow> registry" where
  "indexCapabilities toLowerCase toolId [] r = r"
| "indexCapabilities toLowerCase toolId (capability # rest) r =
     indexCapabilities toLowerCase toolId rest
       (r\<lparr>allCapabilities := insert capability (allCapabilities r),
          capabilityIndex := addToIndex (toLowerCase capability) toolId (capabilityIndex r)\<rparr>)"

fun indexKeywords :: "lower_case \<Rightarrow> string \<Rightarrow> string list \<Rightarrow> registry \<Rightarrow> registry" where
  "indexKeywords toLowerCase toolId [] r = r"
| "indexKeywords toLowerCase toolId (keyword # rest) r =
     indexKeywords toLowerCase toolId rest
       (r\<lparr>keywordIndex := addToIndex (toLowerCase keyword) toolId (keywordIndex r)\<rparr>)"

definition indexCategory :: "string \<Rightarrow> tool \<Rightarrow> registry \<Rightarrow> registry" where
  "indexCategory toolId t r =
     (case category t of
        None \<Rightarrow> r
      | Some c \<Rightarrow>
          if c = [] then r else r\<lparr>categories := addToIndex c toolId (categories r)\<rparr>)"

text \<open>
  The part of \<open>registerTool\<close> after the name has been read: the name index, the category,
  capability and keyword indices, and the initial statistics.
\<close>

definition indexTool :: "lower_case \<Rightarrow> string \<Rightarrow> string \<Rightarrow> tool \<Rightarrow> registry \<Rightarrow> registry" where
  "indexTool toLowerCase toolId n t r =
     (let r2 = r\<lparr>nameIndex := (nameIndex r)(toLowerCase n \<mapsto> toolId)\<rparr>;
          r3 = indexCategory toolId t r2;
          r4 = (case capabilities t of
                  None \<Rightarrow> r3
                | Some cs \<Rightarrow> indexCapabilities toLowerCase toolId cs r3);
          r5 = (case toolKeywords t of
                  None \<Rightarrow> r4
                | Some ks \<Rightarrow> indexKeywords toLowerCase toolId ks r4)
      in r5\<lparr>usageStats := AList.update toolId initialStats (usageStats r5)\<rparr>)"

text \<open>
  \<open>registerTool\<close>. An error of the validator is caught before anything is written. A
  validated tool without a name makes \<open>validatedTool.name.toLowerCase()\<close> throw after
  \<open>this.set(toolId, validatedTool)\<close>; the handler returns \<open>false\<close> and the entry stays.
\<close>

definition registerTool ::
  "lower_case \<Rightarrow> validator \<Rightarrow> string \<Rightarrow> tool \<Rightarrow> registry \<Rightarrow> bool \<times> registry" where
  "registerTool toLowerCase validate uuid toolDefinition r =
     (case validate toolDefinition of
        Inl e \<Rightarrow> (False, r)
      | Inr validatedTool \<Rightarrow>
          (let toolId = idOrUuid (tool_id validatedTool) uuid;
               r1 = r\<lparr>tools := AList.update toolId validatedTool (tools r)\<rparr>
           in case name validatedTool of
                None \<Rightarrow> (False, r1)
              | Some n \<Rightarrow> (True, indexTool toLowerCase toolId n validatedTool r1)))"

subsection \<open>unregisterTool\<close>

text \<open>
  \<open>const tools = index.get(key); tools.delete(toolId);
  if (tools.size === 0) index.delete(key)\<close>, under \<open>if (index.has(key))\<close>.
\<close>

definition removeFromIndex ::
  "string \<Rightarrow> string \<Rightarrow> (string \<rightharpoonup> string set) \<Rightarrow> (string \<rightharpoonup> string set)" where
  "removeFromIndex key toolId idx =
     (case idx key of
        None \<Rightarrow> idx
      | Some s \<Rightarrow> if s - {toolId} = {} then idx(key := None) else idx(key \<mapsto> s - {toolId}))"

fun unindexCapabilities :: "lower_case \<Rightarrow> string \<Rightarrow> string list \<Rightarrow> registry \<Rightarrow> registry" where
  "unindexCapabilities toLowerCase toolId [] r = r"
| "unindexCapabilities toLowerCase toolId (capability # rest) r =
     unindexCapabilities toLowerCase toolId rest
       (r\<lparr>capabilityIndex :=
            removeFromIndex (toLowerCase capability) toolId (capabilityIndex r)\<rparr>)"

fun unindexKeywords :: "lower_case \<Rightarrow> string \<Rightarrow> string list \<Rightarrow> registry \<Rightarrow> registry" where
  "unindexKeywords toLowerCase toolId [] r = r"
| "unindexKeywords toLowerCase toolId (keyword # rest) r =
     unindexKeywords toLowerCase toolId rest
       (r\<lparr>keywordIndex := removeFromIndex (toLowerCase keyword) toolId (keywordIndex r)\<rparr>)"

definition unindexCategory :: "string \<Rightarrow> tool \<Rightarrow> registry \<Rightarrow> registry" where
  "unindexCategory toolId t r =
     (case category t of
        None \<Rightarrow> r
      | Some c \<Rightarrow>
          if c = [] then r else r\<lparr>categories := removeFromIndex c toolId (categories r)\<rparr>)"

definition unindexTool :: "lower_case \<Rightarrow> string \<Rightarrow> string \<Rightarrow> tool \<Rightarrow> registry \<Rightarrow> registry" where
  "unindexTool toLowerCase toolId n t r =
     (let r2 = r\<lparr>nameIndex := (nameIndex r)(toLowerCase n := None)\<rparr>;
          r3 = unindexCategory toolId t r2;
          r4 = (case capabilities t of
                  None \<Rightarrow> r3
                | Some cs \<Rightarrow> unindexCapabilities toLowerCase toolId cs r3);
          r5 = (case toolKeywords t of
                  None \<Rightarrow> r4
                | Some ks \<Rightarrow> unindexKeywords toLowerCase toolId ks r4)
      in r5\<lparr>usageStats := AList.delete toolId (usageStats r5)\<rparr>)"

text \<open>
  The identifier is tried as an id first and as a name second. \<open>unregisterTool\<close> has no
  handler: a stored tool without a name makes \<open>tool.name.toLowerCase()\<close> throw after
  \<open>this.delete(toolId)\<close>.
\<close>

definition resolveIdentifier :: "lower_case \<Rightarrow> string \<Rightarrow> registry \<Rightarrow> string option" where
  "resolveIdentifier toLowerCase toolIdentifier r =
     (if map_of (tools r) toolIdentifier \<noteq> None then Some toolIdentifier
      else nameIndex r (toLowerCase toolIdentifier))"

definition unregisterTool :: "lower_case \<Rightarrow> string \<Rightarrow> registry \<Rightarrow> (js_error + bool) \<times> registry" where
  "unregisterTool toLowerCase toolIdentifier r =
     (case resolveIdentifier toLowerCase toolIdentifier r of
        None \<Rightarrow> (Inr False, r)
      | Some toolId \<Rightarrow>
          (case map_of (tools r) toolId of
             None \<Rightarrow> (Inr False, r)
           | Some t \<Rightarrow>
               (let r1 = r\<lparr>tools := AList.delete toolId (tools r)\<rparr>
                in case name t of
                     None \<Rightarrow> (Inl TypeError, r1)
                   | Some n \<Rightarrow> (Inr True, unindexTool toLowerCase toolId n t r1))))"

subsection \<open>findTools\<close>

text \<open>
  The argument \<open>criteria\<close> of \<open>findTools\<close>, with the properties \<open>category\<close>,
  \<open>capability\<close>, \<open>keywords\<close>, \<open>inputType\<close> and \<open>outputType\<close>.
\<close>

record criteria =
  crit_category :: "string option"
  crit_capability :: "string option"
  crit_keywords :: "string list option"
  crit_inputType :: "string option"
  crit_outputType :: "string option"

text \<open>
  The filters work on the list of ids, which starts as \<open>this.keys()\<close>. The category and
  the capability filter leave \<open>findTools\<close> with \<open>return []\<close> when the index has no entry
  for the key: that is the result \<open>None\<close>.
\<close>

definition filterByIndex ::
  "string option \<Rightarrow> (string \<Rightarrow> string) \<Rightarrow> (string \<rightharpoonup> string set) \<Rightarrow> string list \<Rightarrow>
   string list option" where
  "filterByIndex wanted mkKey idx toolIds =
     (case wanted of
        None \<Rightarrow> Some toolIds
      | Some w \<Rightarrow>
          if w = [] then Some toolIds
          else (case idx (mkKey w) of
                  None \<Rightarrow> None
                | Some indexed \<Rightarrow> Some (filter (\<lambda>i. i \<in> indexed) toolIds)))"

fun filterByKeywords ::
  "lower_case \<Rightarrow> string list \<Rightarrow> (string \<rightharpoonup> string set) \<Rightarrow> string list \<Rightarrow> string list" where
  "filterByKeywords toLowerCase [] idx toolIds = toolIds"
| "filterByKeywords toLowerCase (keyword # rest) idx toolIds =
     filterByKeywords toLowerCase rest idx
       (case idx (toLowerCase keyword) of
          None \<Rightarrow> toolIds
        | Some keywordTools \<Rightarrow> filter (\<lambda>i. i \<in> keywordTools) toolIds)"

text \<open>
  \<open>tool.inputTypes && tool.inputTypes.includes(wanted)\<close> for \<open>tool = this.get(id)\<close>. The
  ids come from \<open>this.keys()\<close>, so \<open>this.get(id)\<close> is a tool.
\<close>

definition hasType :: "(tool \<Rightarrow> string list option) \<Rightarrow> string \<Rightarrow> registry \<Rightarrow> string \<Rightarrow> bool" where
  "hasType types wanted r i =
     (case map_of (tools r) i of
        None \<Rightarrow> False
      | Some t \<Rightarrow> (case types t of None \<Rightarrow> False | Some ts \<Rightarrow> wanted \<in> set ts))"

definition filterByType ::
  "string option \<Rightarrow> (tool \<Rightarrow> string list option) \<Rightarrow> registry \<Rightarrow> string list \<Rightarrow> string list" where
  "filterByType wanted types r toolIds =
     (case wanted of
        None \<Rightarrow> toolIds
      | Some w \<Rightarrow> if w = [] then toolIds else filter (hasType types w r) toolIds)"

definition findToolIds :: "lower_case \<Rightarrow> criteria \<Rightarrow> registry \<Rightarrow> string list" where
  "findToolIds toLowerCase c r =
     (case filterByIndex (crit_category c) (\<lambda>k. k) (categories r) (map fst (tools r)) of
        None \<Rightarrow> []
      | Some ids1 \<Rightarrow>
          (case filterByIndex (crit_capability c) toLowerCase (capabilityIndex r) ids1 of
             None \<Rightarrow> []
           | Some ids2 \<Rightarrow>
               (let ids3 = (case crit_keywords c of
                              None \<Rightarrow> ids2
                            | Some ks \<Rightarrow> filterByKeywords toLowerCase ks (keywordIndex r) ids2);
                    ids4 = filterByType (crit_inputType c) inputTypes r ids3
                in filterByType (crit_outputType c) outputTypes r ids4)))"

text \<open>The result is \<open>[...toolIds].map(id => this.get(id))\<close>.\<close>

definition findTools :: "lower_case \<Rightarrow> criteria \<Rightarrow> registry \<Rightarrow> tool option list" where
  "findTools toLowerCase c r = map (map_of (tools r)) (findToolIds toLowerCase c r)"

definition noCriteria :: criteria where
  "noCriteria =
     \<lparr>crit_category = None, crit_capability = None, crit_keywords = None,
      crit_inputType = None, crit_outputType = None\<rparr>"

subsection \<open>getToolRecommendations\<close>

text \<open>The loop over \<open>tool.keywords\<close>: 10 for every keyword the query includes.\<close>

fun keywordScore :: "lower_case \<Rightarrow> string \<Rightarrow> string list \<Rightarrow> real \<Rightarrow> real" where
  "keywordScore toLowerCase queryLower [] score = score"
| "keywordScore toLowerCase queryLower (keyword # rest) score =
     keywordScore toLowerCase queryLower rest
       (if strIncludes queryLower (toLowerCase keyword) then score + 10 else score)"

definition descriptionMatches :: "lower_case \<Rightarrow> string \<Rightarrow> tool \<Rightarrow> bool" where
  "descriptionMatches toLowerCase queryLower t =
     (case description t of
        None \<Rightarrow> False
      | Some d \<Rightarrow> d \<noteq> [] \<and> strIncludes queryLower (toLowerCase d))"

text \<open>
  The keyword, name and description matches add the integers 10, 5 and 3. The weight by
  past performance is computed in doubles: \<open>successCount / totalUses\<close>,
  \<open>0.5 * successRate\<close>, \<open>0.5 + ...\<close> and \<open>score *= ...\<close> are four rounded operations.
\<close>

definition performanceWeight :: "rounding \<Rightarrow> tool_stats \<Rightarrow> real \<Rightarrow> real" where
  "performanceWeight rnd stats score =
     (let totalUses = successCount stats + failureCount stats
      in if totalUses > 0
         then (let successRate = divD rnd (real (successCount stats)) (real totalUses)
               in mulD rnd score (addD rnd 0.5 (mulD rnd 0.5 successRate)))
         else score)"

text \<open>
  The score of one entry. \<open>tool.name.toLowerCase()\<close> throws for a tool without a name.
\<close>

definition scoreTool ::
  "lower_case \<Rightarrow> rounding \<Rightarrow> registry \<Rightarrow> string \<Rightarrow> string \<times> tool \<Rightarrow> js_error + real" where
  "scoreTool toLowerCase rnd r queryLower entry =
     (case entry of (i, t) \<Rightarrow>
        (let s1 = (case toolKeywords t of
                     None \<Rightarrow> 0
                   | Some ks \<Rightarrow> keywordScore toLowerCase queryLower ks 0)
         in case name t of
              None \<Rightarrow> Inl TypeError
            | Some n \<Rightarrow>
                (let s2 = (if strIncludes queryLower (toLowerCase n) then s1 + 5 else s1);
                     s3 = (if descriptionMatches toLowerCase queryLower t then s2 + 3 else s2)
                 in Inr (case map_of (usageStats r) i of
                           None \<Rightarrow> s3
                         | Some stats \<Rightarrow> performanceWeight rnd stats s3))))"

text \<open>The loop over \<open>this.entries()\<close> that fills \<open>matchScores\<close>.\<close>

fun scoreEntries ::
  "lower_case \<Rightarrow> rounding \<Rightarrow> registry \<Rightarrow> string \<Rightarrow> (string \<times> tool) list \<Rightarrow>
   (string \<times> real) list \<Rightarrow> js_error + (string \<times> real) list" where
  "scoreEntries toLowerCase rnd r queryLower [] matchScores = Inr matchScores"
| "scoreEntries toLowerCase rnd r queryLower (entry # rest) matchScores =
     (case scoreTool toLowerCase rnd r queryLower entry of
        Inl e \<Rightarrow> Inl e
      | Inr score \<Rightarrow>
          scoreEntries toLowerCase rnd r queryLower rest
            (if score > 0 then AList.update (fst entry) score matchScores else matchScores))"

text \<open>
  \<open>[...matchScores.entries()].sort((a, b) => b[1] - a[1])\<close>: \<open>Array.prototype.sort\<close> is
  stable, and so is \<^const>\<open>sort_key\<close>; the key \<open>- score\<close> sorts by descending score.
  The scores are finite doubles, and the difference of two finite doubles is positive,
  zero or negative as their order is: the comparator orders the scores as the reals they
  denote are ordered.
\<close>

definition rankedScores ::
  "lower_case \<Rightarrow> rounding \<Rightarrow> registry \<Rightarrow> string \<Rightarrow> js_error + (string \<times> real) list" where
  "rankedScores toLowerCase rnd r query =
     (case scoreEntries toLowerCase rnd r (toLowerCase query) (tools r) [] of
        Inl e \<Rightarrow> Inl e
      | Inr matchScores \<Rightarrow> Inr (sort_key (\<lambda>e. - snd e) matchScores))"

definition getToolRecommendations ::
  "lower_case \<Rightarrow> rounding \<Rightarrow> string \<Rightarrow> registry \<Rightarrow> js_error + tool option list" where
  "getToolRecommendations toLowerCase rnd query r =
     (case rankedScores toLowerCase rnd r query of
        Inl e \<Rightarrow> Inl e
      | Inr sortedScores \<Rightarrow> Inr (map (\<lambda>e. map_of (tools r) (fst e)) sortedScores))"

subsection \<open>exportData and importData\<close>





fun importStats :: "(string \<times> tool_stats) list \<Rightarrow> registry \<Rightarrow> registry" where
  "importStats [] r = r"
| "importStats (entry # rest) r =
     importStats rest
       (if map_of (tools r) (fst entry) \<noteq> None
        then r\<lparr>usageStats := AList.update (fst entry) (snd entry) (usageStats r)\<rparr>
        else r)"


section \<open>The agent orchestrator (src/core/orchestrator.js)\<close>

subsection \<open>Contexts\<close>

datatype role = User | Assistant

record turn =
  role :: role
  content :: string
  toolsUsed :: "string list option"
  timestamp :: string

text \<open>
  What the collaborators hand to \<open>processQuery\<close>: the intent with its \<open>primary\<close> label,
  the plan with its \<open>steps\<close>, the execution results with \<open>outputs\<close> and \<open>toolsUsed\<close>,
  and the synthesized response. \<open>toolsUsed\<close> is \<open>None\<close> when the property is not an
  array, and an element of it \<open>None\<close> when it is \<open>null\<close> or \<open>undefined\<close>; any other
  element is an object, with its \<open>name\<close> and \<open>executionTime\<close>.
\<close>

record intent =
  primary :: string

record tool_plan =
  steps :: "string list"
  estimatedCompletionTime :: int

record execution_results =
  outputs :: "string list"
  resultToolsUsed :: "(string \<times> int) option list option"

record response =
  responseText :: string
  responseHtml :: "string option"
  responseSources :: "string list"

text \<open>
  A session context, with its \<open>conversationHistory\<close> array. \<open>lastUpdated\<close> is read by
  \<open>cleanupIdleContexts\<close> through \<open>new Date(context.lastUpdated || 0).getTime()\<close>; the
  model keeps it as a time in milliseconds since the epoch, \<open>None\<close> when the property is
  absent.
\<close>

record session_context =
  contextId :: string
  conversationHistory :: "turn list"
  lastUpdated :: "int option"
  currentQuery :: "string option"
  currentIntent :: "intent option"
  currentEntities :: "string list option"
  currentPlan :: "tool_plan option"
  lastExecutionResults :: "execution_results option"

text \<open>\<open>activeContexts\<close>: a \<open>Map\<close> from session ids to contexts.\<close>

type_synonym contexts = "(string \<times> session_context) list"

subsection \<open>processQuery\<close>

datatype error_code =
  TOOL_EXECUTION_FAILED | CONTEXT_LIMIT_EXCEEDED | RATE_LIMIT_EXCEEDED | INVALID_REQUEST
  | OtherCode

record thrown =
  code :: error_code
  message :: string

record query_data =
  queryText :: string
  querySessionId :: "string option"
  queryUserId :: "string option"

text \<open>
  One call of \<open>processQuery\<close> awaits collaborators that are not among the sources
  (\<open>retrieveSession\<close>, \<open>createToolExecutionContext\<close>, \<open>analyzeIntent\<close> and
  \<open>extractEntities\<close>, \<open>generateToolPlan\<close>, \<open>executeToolChain\<close>, \<open>synthesizeResults\<close>,
  \<open>storeSession\<close>, the language model behind \<open>handleExecutionError\<close>) and reads the
  clock and \<open>uuidv4()\<close>. What each of them returns or throws in the call is a field of
  the environment; \<open>Inl\<close> is a rejected promise. \<open>fallbackContent\<close> is the text of the
  fallback completion when the client exists and the completion has a choice.

  Each of the first three results is read by the \<open>logger.info\<close> call that follows its
  \<open>await\<close> (\<open>intent.primary\<close> and \<open>entities.length\<close>, \<open>plan.steps.length\<close>,
  \<open>executionResults.outputs.length\<close>), before the result is assigned to the context. A
  result that these reads cannot take throws a \<open>TypeError\<close> there, and the call leaves as
  it does when the promise is rejected: such a result is an \<open>Inl\<close> of its field. The
  response of \<open>synthesizeResults\<close> is first read in step 6, after the user turn has been
  pushed: it is \<open>None\<close> when it is \<open>null\<close> or \<open>undefined\<close>, and reading its \<open>text\<close> then
  throws the \<open>TypeError\<close> whose message is \<open>typeErrorMessage\<close>.
\<close>

record environment =
  freshSessionId :: string
  retrieved :: "thrown + session_context option"
  created :: session_context
  analysed :: "thrown + intent \<times> string list"
  planned :: "thrown + tool_plan"
  executed :: "thrown + execution_results"
  synthesized :: "thrown + response option"
  stored :: "thrown + unit"
  typeErrorMessage :: string
  userTimestamp :: string
  assistantTimestamp :: string
  elapsedMs :: int
  fallbackContent :: "string option"
  production :: bool

record query_result =
  resultSessionId :: string
  resultText :: string
  resultHtml :: "string option"
  resultSources :: "string list"
  resultProcessingTime :: "int option"
  resultTools :: "(string \<times> int) list"
  resultError :: bool
  resultErrorType :: "string option"
  resultErrorMessage :: "string option"

definition getOrCreateContext ::
  "environment \<Rightarrow> string \<Rightarrow> contexts \<Rightarrow> session_context \<times> contexts" where
  "getOrCreateContext env sessionId active =
     (case map_of active sessionId of
        Some c \<Rightarrow> (c, active)
      | None \<Rightarrow>
          (case retrieved env of
             Inr (Some savedSession) \<Rightarrow>
               (savedSession, AList.update sessionId savedSession active)
           | Inr None \<Rightarrow> (created env, AList.update sessionId (created env) active)
           | Inl e \<Rightarrow> (created env, AList.update sessionId (created env) active)))"

definition errorCategory :: "thrown \<Rightarrow> string \<times> string" where
  "errorCategory e =
     (case code e of
        TOOL_EXECUTION_FAILED \<Rightarrow>
          (''tool_failure'', ''I had trouble using one of my tools to answer your question.'')
      | CONTEXT_LIMIT_EXCEEDED \<Rightarrow>
          (''context_limit'', ''Your question is too complex for me to handle at once.'')
      | RATE_LIMIT_EXCEEDED \<Rightarrow>
          (''rate_limit'',
           ''I'' @ [CHR 0x27] @ ''m currently handling too many requests. Please try again shortly.'')
      | INVALID_REQUEST \<Rightarrow>
          (''invalid_request'', ''I couldn'' @ [CHR 0x27] @ ''t understand your request properly.'')
      | OtherCode \<Rightarrow> (''general'', ''I encountered an issue while processing your request.''))"

text \<open>The return value of the \<open>catch\<close> branch, built from \<open>handleExecutionError\<close>.\<close>

definition errorResult :: "environment \<Rightarrow> string \<Rightarrow> thrown \<Rightarrow> query_result" where
  "errorResult env sessionId e =
     (case errorCategory e of (errorType, userMessage) \<Rightarrow>
        (let responseText =
               (if errorType \<in> {''tool_failure'', ''general''}
                then (case fallbackContent env of
                        None \<Rightarrow> userMessage
                      | Some c \<Rightarrow> userMessage @ '' '' @ c)
                else userMessage)
         in \<lparr>resultSessionId = sessionId, resultText = responseText, resultHtml = None,
              resultSources = [], resultProcessingTime = None, resultTools = [],
              resultError = True, resultErrorType = Some errorType,
              resultErrorMessage =
                Some (if production env then userMessage else message e)\<rparr>))"

text \<open>A \<open>TypeError\<close> has no \<open>code\<close>.\<close>

definition typeError :: "environment \<Rightarrow> thrown" where
  "typeError env = \<lparr>code = OtherCode, message = typeErrorMessage env\<rparr>"

text \<open>
  Step 6 is two statements, one \<open>context.conversationHistory.push\<close> each. The first
  pushes the user turn, whose fields are the query text and the clock.
\<close>

definition userTurn :: "environment \<Rightarrow> string \<Rightarrow> turn" where
  "userTurn env text =
     \<lparr>role = User, content = text, toolsUsed = None, timestamp = userTimestamp env\<rparr>"

text \<open>
  The second builds the assistant turn from \<open>response.text\<close> and
  \<open>executionResults.toolsUsed.map(t => t.name)\<close>. \<open>toolsUsedObjects\<close> is the array that
  \<open>map\<close> can walk: there is none when \<open>toolsUsed\<close> is not an array or holds \<open>null\<close> or
  \<open>undefined\<close>, and the call throws a \<open>TypeError\<close>.
\<close>

definition toolsUsedObjects :: "execution_results \<Rightarrow> (string \<times> int) list option" where
  "toolsUsedObjects executionResults =
     (case resultToolsUsed executionResults of None \<Rightarrow> None | Some ts \<Rightarrow> those ts)"

definition assistantTurn :: "environment \<Rightarrow> response \<Rightarrow> (string \<times> int) list \<Rightarrow> turn" where
  "assistantTurn env resp used =
     \<lparr>role = Assistant, content = responseText resp, toolsUsed = Some (map fst used),
      timestamp = assistantTimestamp env\<rparr>"

definition pushTurn :: "turn \<Rightarrow> session_context \<Rightarrow> session_context" where
  "pushTurn t ctx = ctx\<lparr>conversationHistory := conversationHistory ctx @ [t]\<rparr>"

text \<open>
  The context is an object held by \<open>activeContexts\<close>: every assignment to one of its
  properties is seen through the map, so each branch writes the context back under its
  session id. A rejected promise or a \<open>TypeError\<close> leaves through the \<open>catch\<close> branch with
  the assignments and pushes made so far: when the assistant turn cannot be built, the
  user turn stays in the history without it. The call is taken without a socket (the
  default \<open>socket = null\<close>), and the evaluation that \<open>scheduleToolEvaluation\<close> defers with
  \<open>setTimeout\<close> writes nothing to the context.
\<close>

text \<open>\<open>sessionId = uuidv4()\<close> is the default of the destructured \<open>queryData\<close>.\<close>

definition querySession :: "environment \<Rightarrow> query_data \<Rightarrow> string" where
  "querySession env queryData =
     (case querySessionId queryData of None \<Rightarrow> freshSessionId env | Some s \<Rightarrow> s)"

text \<open>
  Steps 6 to 8 and the return value, with \<open>response\<close> and \<open>executionResults\<close> as steps 4
  and 5 have left them.
\<close>

definition recordExchange ::
  "environment \<Rightarrow> string \<Rightarrow> string \<Rightarrow> response option \<Rightarrow> execution_results \<Rightarrow>
   session_context \<Rightarrow> contexts \<Rightarrow> query_result \<times> contexts" where
  "recordExchange env sessionId text response executionResults c4 active1 =
     (let c5 = pushTurn (userTurn env text) c4
      in case response of
           None \<Rightarrow> (errorResult env sessionId (typeError env), AList.update sessionId c5 active1)
         | Some resp \<Rightarrow>
             (case toolsUsedObjects executionResults of
                None \<Rightarrow>
                  (errorResult env sessionId (typeError env),
                   AList.update sessionId c5 active1)
              | Some used \<Rightarrow>
                  (let c6 = pushTurn (assistantTurn env resp used) c5;
                       active2 = AList.update sessionId c6 active1
                   in case stored env of
                        Inl e \<Rightarrow> (errorResult env sessionId e, active2)
                      | Inr u \<Rightarrow>
                          (\<lparr>resultSessionId = sessionId, resultText = responseText resp,
                            resultHtml = responseHtml resp,
                            resultSources = responseSources resp,
                            resultProcessingTime = Some (elapsedMs env),
                            resultTools = used, resultError = False,
                            resultErrorType = None, resultErrorMessage = None\<rparr>,
                           active2))))"

definition processQuery ::
  "environment \<Rightarrow> query_data \<Rightarrow> contexts \<Rightarrow> query_result \<times> contexts" where
  "processQuery env queryData active =
     (let text = queryText queryData;
          sessionId = querySession env queryData
      in case getOrCreateContext env sessionId active of
           (context0, active1) \<Rightarrow>
             (let c1 = context0\<lparr>currentQuery := Some text\<rparr>
              in case analysed env of
                   Inl e \<Rightarrow> (errorResult env sessionId e, AList.update sessionId c1 active1)
                 | Inr (intent, entities) \<Rightarrow>
                     (let c2 = c1\<lparr>currentIntent := Some intent,
                                   currentEntities := Some entities\<rparr>
                      in case planned env of
                           Inl e \<Rightarrow>
                             (errorResult env sessionId e, AList.update sessionId c2 active1)
                         | Inr plan \<Rightarrow>
                             (let c3 = c2\<lparr>currentPlan := Some plan\<rparr>
                              in case executed env of
                                   Inl e \<Rightarrow>
                                     (errorResult env sessionId e,
                                      AList.update sessionId c3 active1)
                                 | Inr executionResults \<Rightarrow>
                                     (let c4 = c3\<lparr>lastExecutionResults :=
                                                     Some executionResults\<rparr>
                                      in case synthesized env of
                                           Inl e \<Rightarrow>
                                             (errorResult env sessionId e,
                                              AList.update sessionId c4 active1)
                                         | Inr response \<Rightarrow>
                                             recordExchange env sessionId text response
                                               executionResults c4 active1)))))"

subsection \<open>cleanupIdleContexts\<close>

text \<open>\<open>new Date(context.lastUpdated || 0).getTime()\<close>\<close>

definition lastUpdatedMs :: "session_context \<Rightarrow> int" where
  "lastUpdatedMs ctx = (case lastUpdated ctx of None \<Rightarrow> 0 | Some t \<Rightarrow> t)"

text \<open>
  The loop over \<open>this.activeContexts.entries()\<close>; deleting the entry that is being
  visited does not disturb the iteration of a \<open>Map\<close>.
\<close>

fun sweepContexts :: "int \<Rightarrow> int \<Rightarrow> contexts \<Rightarrow> nat \<times> contexts \<Rightarrow> nat \<times> contexts" where
  "sweepContexts now maxAgeMs [] acc = acc"
| "sweepContexts now maxAgeMs (entry # rest) acc =
     sweepContexts now maxAgeMs rest
       (if now - lastUpdatedMs (snd entry) > maxAgeMs
        then (fst acc + 1, AList.delete (fst entry) (snd acc))
        else acc)"

text \<open>
  \<open>cleanupIdleContexts(maxAgeMs = 30 * 60 * 1000)\<close>, with \<open>now\<close> the value of
  \<open>Date.now()\<close>; it returns \<open>cleanedCount\<close>.
\<close>

definition cleanupIdleContexts :: "int option \<Rightarrow> int \<Rightarrow> contexts \<Rightarrow> nat \<times> contexts" where
  "cleanupIdleContexts maxAgeMs now active =
     sweepContexts now (case maxAgeMs of None \<Rightarrow> 30 * 60 * 1000 | Some m \<Rightarrow> m)
       active (0, active)"

text \<open>
  \<open>setInterval(() => { orchestrator.cleanupIdleContexts(); }, 15 * 60 * 1000)\<close>: the
  callback and the period of the timer, in milliseconds.
\<close>

definition periodicCleanup :: "int \<Rightarrow> contexts \<Rightarrow> nat \<times> contexts" where
  "periodicCleanup now active = cleanupIdleContexts None now active"

definition cleanupIntervalMs :: int where
  "cleanupIntervalMs = 15 * 60 * 1000"

definition minuteMs :: int where
  "minuteMs = 60000"

subsection \<open>Runs of the orchestrator\<close>

text \<open>
  What happens to \<open>activeContexts\<close> over time: queries, and sweeps of the timer or of a
  caller of \<open>cleanupIdleContexts\<close>.
\<close>

datatype event = Query environment query_data | Cleanup "int option" int

fun runEvent :: "event \<Rightarrow> contexts \<Rightarrow> contexts" where
  "runEvent (Query env queryData) active = snd (processQuery env queryData active)"
| "runEvent (Cleanup maxAgeMs now) active = snd (cleanupIdleContexts maxAgeMs now active)"

fun runEvents :: "event list \<Rightarrow> contexts \<Rightarrow> contexts" where
  "runEvents [] active = active"
| "runEvents (ev # rest) active = runEvents rest (runEvent ev active)"





text \<open>
  The results that step 6 reads have the shape it reads them at: the response is an
  object, and \<open>toolsUsed\<close> an array of objects.
\<close>

definition shapedResults :: "environment \<Rightarrow> bool" where
  "shapedResults env =
     ((case synthesized env of Inr None \<Rightarrow> False | Inr (Some resp) \<Rightarrow> True | Inl e \<Rightarrow> True) \<and>
      (case executed env of
         Inr executionResults \<Rightarrow> toolsUsedObjects executionResults \<noteq> None
       | Inl e \<Rightarrow> True))"


definition isQuery :: "event \<Rightarrow> bool" where
  "isQuery ev = (case ev of Query env queryData \<Rightarrow> True | Cleanup maxAgeMs now \<Rightarrow> False)"

section \<open>Coherence of the indices\<close>

text \<open>The tool \<open>i\<close> is listed under \<open>key\<close>; no key is kept with an empty set.\<close>

definition indexed :: "(string \<rightharpoonup> string set) \<Rightarrow> string \<Rightarrow> string \<Rightarrow> bool" where
  "indexed idx key i = (case idx key of None \<Rightarrow> False | Some s \<Rightarrow> i \<in> s)"

definition noEmptyEntry :: "(string \<rightharpoonup> string set) \<Rightarrow> bool" where
  "noEmptyEntry idx = (\<forall>key. idx key \<noteq> Some {})"

text \<open>The keys under which \<open>registerTool\<close> lists a tool.\<close>

definition categoryKeys :: "tool \<Rightarrow> string set" where
  "categoryKeys t = (case category t of None \<Rightarrow> {} | Some c \<Rightarrow> if c = [] then {} else {c})"

definition capabilityKeys :: "lower_case \<Rightarrow> tool \<Rightarrow> string set" where
  "capabilityKeys toLowerCase t =
     (case capabilities t of None \<Rightarrow> {} | Some cs \<Rightarrow> toLowerCase ` set cs)"

definition keywordKeys :: "lower_case \<Rightarrow> tool \<Rightarrow> string set" where
  "keywordKeys toLowerCase t =
     (case toolKeywords t of None \<Rightarrow> {} | Some ks \<Rightarrow> toLowerCase ` set ks)"

definition lowerName :: "lower_case \<Rightarrow> tool \<Rightarrow> string option" where
  "lowerName toLowerCase t = map_option toLowerCase (name t)"

text \<open>
  The indices are coherent with the primary map: an index entry names a tool that is in
  the map, under a key that is the tool's own, and every tool of the map is listed under
  each of its keys. The primary map has one entry for an id, and every tool has a name.
\<close>

definition coherent :: "lower_case \<Rightarrow> registry \<Rightarrow> bool" where
  "coherent toLowerCase r =
     (distinct (map fst (tools r)) \<and>
      (\<forall>i t. map_of (tools r) i = Some t \<longrightarrow> name t \<noteq> None) \<and>
      (\<forall>n i. nameIndex r n = Some i \<longleftrightarrow>
               (\<exists>t. map_of (tools r) i = Some t \<and> lowerName toLowerCase t = Some n)) \<and>
      (\<forall>c i. indexed (categories r) c i \<longleftrightarrow>
               (\<exists>t. map_of (tools r) i = Some t \<and> c \<in> categoryKeys t)) \<and>
      (\<forall>k i. indexed (capabilityIndex r) k i \<longleftrightarrow>
               (\<exists>t. map_of (tools r) i = Some t \<and> k \<in> capabilityKeys toLowerCase t)) \<and>
      (\<forall>k i. indexed (keywordIndex r) k i \<longleftrightarrow>
               (\<exists>t. map_of (tools r) i = Some t \<and> k \<in> keywordKeys toLowerCase t)) \<and>
      noEmptyEntry (categories r) \<and> noEmptyEntry (capabilityIndex r) \<and>
      noEmptyEntry (keywordIndex r))"

subsection \<open>Sequences of registrations and unregistrations\<close>

text \<open>\<open>Register d uuid\<close> is \<open>registerTool(d)\<close> in a call where \<open>uuidv4()\<close> gives \<open>uuid\<close>.\<close>

datatype registry_op = Register tool string | Unregister string

fun applyOp :: "lower_case \<Rightarrow> validator \<Rightarrow> registry_op \<Rightarrow> registry \<Rightarrow> registry" where
  "applyOp toLowerCase validate (Register toolDefinition uuid) r =
     snd (registerTool toLowerCase validate uuid toolDefinition r)"
| "applyOp toLowerCase validate (Unregister toolIdentifier) r =
     snd (unregisterTool toLowerCase toolIdentifier r)"

fun applyOps :: "lower_case \<Rightarrow> validator \<Rightarrow> registry_op list \<Rightarrow> registry \<Rightarrow> registry" where
  "applyOps toLowerCase validate [] r = r"
| "applyOps toLowerCase validate (oper # rest) r =
     applyOps toLowerCase validate rest (applyOp toLowerCase validate oper r)"

text \<open>
  A registration is fresh when the validated tool has a name whose lower-case form is not
  in the name index, and its id is not in the map. A rejected definition is not
  registered and counts as fresh.
\<close>

definition freshRegistration ::
  "lower_case \<Rightarrow> validator \<Rightarrow> tool \<Rightarrow> string \<Rightarrow> registry \<Rightarrow> bool" where
  "freshRegistration toLowerCase validate toolDefinition uuid r =
     (case validate toolDefinition of
        Inl e \<Rightarrow> True
      | Inr validatedTool \<Rightarrow>
          (case name validatedTool of
             None \<Rightarrow> False
           | Some n \<Rightarrow>
               map_of (tools r) (idOrUuid (tool_id validatedTool) uuid) = None \<and>
               nameIndex r (toLowerCase n) = None))"

fun freshOps :: "lower_case \<Rightarrow> validator \<Rightarrow> registry_op list \<Rightarrow> registry \<Rightarrow> bool" where
  "freshOps toLowerCase validate [] r = True"
| "freshOps toLowerCase validate (Register toolDefinition uuid # rest) r =
     (freshRegistration toLowerCase validate toolDefinition uuid r \<and>
      freshOps toLowerCase validate rest
        (applyOp toLowerCase validate (Register toolDefinition uuid) r))"
| "freshOps toLowerCase validate (Unregister toolIdentifier # rest) r =
     freshOps toLowerCase validate rest
       (applyOp toLowerCase validate (Unregister toolIdentifier) r)"

section \<open>The score of getToolRecommendations in closed form\<close>

text \<open>
  What the scoring loop of \<open>getToolRecommendations\<close> amounts to: 10 for every keyword of
  the tool that the lower-cased query includes, 5 if it includes the name, 3 if it includes
  the whole description, and the sum multiplied in double arithmetic by the weight of the
  success rate when the tool has been used at least once.
\<close>

definition matchSum :: "lower_case \<Rightarrow> string \<Rightarrow> tool \<Rightarrow> real" where
  "matchSum toLowerCase queryLower t =
     10 * real (length (filter (\<lambda>k. strIncludes queryLower (toLowerCase k))
                          (case toolKeywords t of None \<Rightarrow> [] | Some ks \<Rightarrow> ks))) +
     (case name t of
        None \<Rightarrow> 0
      | Some n \<Rightarrow> if strIncludes queryLower (toLowerCase n) then 5 else 0) +
     (if descriptionMatches toLowerCase queryLower t then 3 else 0)"

definition successWeight :: "rounding \<Rightarrow> tool_stats \<Rightarrow> real" where
  "successWeight rnd stats =
     addD rnd 0.5
       (mulD rnd 0.5
          (divD rnd (real (successCount stats))
                    (real (successCount stats + failureCount stats))))"

definition matchScore ::
  "lower_case \<Rightarrow> rounding \<Rightarrow> registry \<Rightarrow> string \<Rightarrow> string \<times> tool \<Rightarrow> real" where
  "matchScore toLowerCase rnd r queryLower entry =
     (let matches = matchSum toLowerCase queryLower (snd entry)
      in case map_of (usageStats r) (fst entry) of
           None \<Rightarrow> matches
         | Some stats \<Rightarrow>
             if successCount stats + failureCount stats > 0
             then mulD rnd matches (successWeight rnd stats)
             else matches)"

definition positiveScores ::
  "lower_case \<Rightarrow> rounding \<Rightarrow> registry \<Rightarrow> string \<Rightarrow> (string \<times> real) list" where
  "positiveScores toLowerCase rnd r query =
     filter (\<lambda>e. snd e > 0)
       (map (\<lambda>entry. (fst entry, matchScore toLowerCase rnd r (toLowerCase query) entry))
          (tools r))"

text \<open>
  The score as the specification words it: 3 for any 3-gram of the description, and the
  weight \<open>0.5 + 0.5 * (successes / max(1, successes + failures))\<close> in every case, in
  exact arithmetic.
\<close>

definition threeGrams :: "string \<Rightarrow> string list" where
  "threeGrams s = map (\<lambda>i. take 3 (drop i s)) [0 ..< length s - 2]"

definition specWeight :: "tool_stats \<Rightarrow> real" where
  "specWeight stats =
     0.5 + 0.5 * (real (successCount stats) /
                  real (max 1 (successCount stats + failureCount stats)))"

definition specScore :: "lower_case \<Rightarrow> registry \<Rightarrow> string \<Rightarrow> string \<times> tool \<Rightarrow> real" where
  "specScore toLowerCase r query entry =
     (10 * real (length (filter (\<lambda>k. strIncludes (toLowerCase query) (toLowerCase k))
                           (case toolKeywords (snd entry) of None \<Rightarrow> [] | Some ks \<Rightarrow> ks))) +
      (case name (snd entry) of
         None \<Rightarrow> 0
       | Some n \<Rightarrow> if strIncludes (toLowerCase query) (toLowerCase n) then 5 else 0) +
      (case description (snd entry) of
         None \<Rightarrow> 0
       | Some d \<Rightarrow>
           if \<exists>g \<in> set (threeGrams (toLowerCase d)). strIncludes (toLowerCase query) g
           then 3 else 0)) *
     specWeight (case map_of (usageStats r) (fst entry) of
                   None \<Rightarrow> initialStats | Some stats \<Rightarrow> stats)"

section \<open>Example values\<close>

text \<open>A tool as the registry's own \<open>setupToolRegistry\<close> registers one, and its registry.\<close>

definition echoTool :: tool where
  "echoTool =
     \<lparr>tool_id = Some ''echo-1'', name = Some ''Echo'', description = Some ''Repeats the input'',
      category = Some ''utility'', capabilities = Some [''Text''], toolKeywords = Some [''echo''],
      inputTypes = Some [''text/plain''], outputTypes = Some [''text/plain''],
      execute = Some (Handler ''echo'')\<rparr>"

definition echoRegistry :: registry where
  "echoRegistry =
     snd (registerTool latin1LowerCase validateToolDefinition ''uuid-0'' echoTool emptyRegistry)"

definition timedUsage :: usage where
  "timedUsage = \<lparr>success = True, executionTime = Some 30\<rparr>"

definition untimedUsage :: usage where
  "untimedUsage = \<lparr>success = True, executionTime = None\<rparr>"

definition statsAfterUntimed :: tool_stats where
  "statsAfterUntimed =
     \<lparr>successCount = 1, failureCount = 0, averageExecutionTime = 0, totalExecutions = 0,
      lastUsed = Some ''2026-01-01T00:00:00.000Z''\<rparr>"

text \<open>
  Registries for the recommendation examples: two tools with the same keyword, a tool with
  a description, and a used tool beside an unused one.
\<close>

definition plainTool :: "string \<Rightarrow> string \<Rightarrow> tool" where
  "plainTool i n =
     \<lparr>tool_id = Some i, name = Some n, description = None, category = None,
      capabilities = None, toolKeywords = None, inputTypes = None, outputTypes = None,
      execute = Some (Handler n)\<rparr>"

definition zetaTool :: tool where
  "zetaTool = (plainTool ''z-1'' ''zeta'')\<lparr>toolKeywords := Some [''data'']\<rparr>"

definition alphaTool :: tool where
  "alphaTool = (plainTool ''a-1'' ''alpha'')\<lparr>toolKeywords := Some [''data'']\<rparr>"

definition tieRegistry :: registry where
  "tieRegistry =
     snd (registerTool latin1LowerCase validateToolDefinition ''uuid-1'' alphaTool
       (snd (registerTool latin1LowerCase validateToolDefinition ''uuid-0'' zetaTool
               emptyRegistry)))"

definition forecastTool :: tool where
  "forecastTool = (plainTool ''f-1'' ''Forecast'')\<lparr>description := Some ''Weather forecast''\<rparr>"

definition forecastRegistry :: registry where
  "forecastRegistry =
     snd (registerTool latin1LowerCase validateToolDefinition ''uuid-0'' forecastTool
            emptyRegistry)"

definition repeatTool :: tool where
  "repeatTool = (plainTool ''rep-1'' ''Repeat'')\<lparr>toolKeywords := Some [''say'']\<rparr>"

definition weightRegistry :: registry where
  "weightRegistry =
     snd (recordToolUsage roundDouble ''rep-1'' timedUsage ''2026-01-01T00:00:00.000Z''
       (snd (registerTool latin1LowerCase validateToolDefinition ''uuid-1'' repeatTool
               echoRegistry)))"

definition repeatStats :: tool_stats where
  "repeatStats =
     \<lparr>successCount = 1, failureCount = 0, averageExecutionTime = 30, totalExecutions = 1,
      lastUsed = Some ''2026-01-01T00:00:00.000Z''\<rparr>"

text \<open>
  Two tools whose scores are one real number in exact arithmetic and two doubles in the
  arithmetic of the source: \<open>alpha\<close> matches a keyword (10) and has succeeded twice in
  three uses, \<open>Echo\<close> matches a keyword and its name (15) and has succeeded once in nine.
\<close>

definition alphaStats :: tool_stats where
  "alphaStats =
     \<lparr>successCount = 2, failureCount = 1, averageExecutionTime = 0, totalExecutions = 0,
      lastUsed = Some ''2026-01-01T00:00:00.000Z''\<rparr>"

definition echoStats :: tool_stats where
  "echoStats =
     \<lparr>successCount = 1, failureCount = 8, averageExecutionTime = 0, totalExecutions = 0,
      lastUsed = Some ''2026-01-01T00:00:00.000Z''\<rparr>"

definition closeRegistry :: registry where
  "closeRegistry =
     (snd (registerTool latin1LowerCase validateToolDefinition ''uuid-1'' echoTool
        (snd (registerTool latin1LowerCase validateToolDefinition ''uuid-0'' alphaTool
                emptyRegistry))))
     \<lparr>usageStats := [(''a-1'', alphaStats), (''echo-1'', echoStats)]\<rparr>"

text \<open>
  Three timed uses of \<open>Echo\<close>, of 10, 20 and 25 milliseconds.
\<close>

definition timed :: "real \<Rightarrow> usage" where
  "timed d = \<lparr>success = True, executionTime = Some d\<rparr>"

definition timedRegistry :: registry where
  "timedRegistry =
     snd (recordToolUsage roundDouble ''echo-1'' (timed 20) ''2026-01-01T00:00:02.000Z''
       (snd (recordToolUsage roundDouble ''echo-1'' (timed 10) ''2026-01-01T00:00:01.000Z''
               echoRegistry)))"

text \<open>A definition whose name collides with \<open>Echo\<close>, and one without a handler.\<close>

definition shoutTool :: tool where
  "shoutTool = echoTool\<lparr>tool_id := Some ''echo-2'', name := Some ''ECHO''\<rparr>"

definition handlerlessTool :: tool where
  "handlerlessTool = echoTool\<lparr>execute := None\<rparr>"


definition renamedTool :: tool where
  "renamedTool = echoTool\<lparr>name := Some ''Echo2''\<rparr>"

definition exampleOps :: "registry_op list" where
  "exampleOps =
     [Register zetaTool ''uuid-0'', Register alphaTool ''uuid-1'',
      Register handlerlessTool ''uuid-2'', Unregister ''ZETA'', Unregister ''missing'']"

definition collidingOps :: "registry_op list" where
  "collidingOps = [Register echoTool ''uuid-0'', Register shoutTool ''uuid-1'']"

definition reregisteringOps :: "registry_op list" where
  "reregisteringOps =
     [Register echoTool ''uuid-0'', Register renamedTool ''uuid-1'', Unregister ''echo-1'']"

text \<open>
  Two names that differ by the case of an accented letter: \<open>CHR 0xE9\<close> is the lower-case
  and \<open>CHR 0xC9\<close> the upper-case e with acute accent.
\<close>

definition accentTool :: tool where
  "accentTool = plainTool ''e-1'' (CHR 0xE9 # ''cole'')"

definition accentUpperTool :: tool where
  "accentUpperTool = plainTool ''e-2'' (CHR 0xC9 # ''COLE'')"

definition accentOps :: "registry_op list" where
  "accentOps = [Register accentTool ''uuid-0'', Register accentUpperTool ''uuid-1'']"

text \<open>Contexts, one query that succeeds and one whose tool execution fails.\<close>

definition freshContext :: session_context where
  "freshContext =
     \<lparr>contextId = ''ctx-1'', conversationHistory = [], lastUpdated = None, currentQuery = None,
      currentIntent = None, currentEntities = None, currentPlan = None,
      lastExecutionResults = None\<rparr>"

definition staleContext :: session_context where
  "staleContext = freshContext\<lparr>contextId := ''ctx-2'', lastUpdated := Some 1792990000000\<rparr>"

definition recentContext :: session_context where
  "recentContext = freshContext\<lparr>contextId := ''ctx-3'', lastUpdated := Some 1793000000000\<rparr>"

definition exampleActive :: contexts where
  "exampleActive = [(''s1'', staleContext), (''s2'', recentContext)]"

definition exampleEnvironment :: environment where
  "exampleEnvironment =
     \<lparr>freshSessionId = ''s9'', retrieved = Inr None, created = freshContext,
      analysed = Inr (\<lparr>primary = ''echo''\<rparr>, []),
      planned = Inr \<lparr>steps = [''Echo''], estimatedCompletionTime = 10\<rparr>,
      executed = Inr \<lparr>outputs = [''hello''], resultToolsUsed = Some [Some (''Echo'', 3)]\<rparr>,
      synthesized =
        Inr (Some \<lparr>responseText = ''hello'', responseHtml = None, responseSources = []\<rparr>),
      stored = Inr (),
      typeErrorMessage = ''Cannot read properties of undefined'',
      userTimestamp = ''2026-10-26T00:00:00.000Z'',
      assistantTimestamp = ''2026-10-26T00:00:00.120Z'',
      elapsedMs = 120, fallbackContent = None, production = False\<rparr>"

definition failingEnvironment :: environment where
  "failingEnvironment =
     exampleEnvironment\<lparr>executed := Inl \<lparr>code = TOOL_EXECUTION_FAILED, message = ''boom''\<rparr>\<rparr>"



definition exampleQuery :: query_data where
  "exampleQuery =
     \<lparr>queryText = ''please echo hello'', querySessionId = Some ''s3'', queryUserId = None\<rparr>"

definition exampleEvents :: "event list" where
  "exampleEvents =
     [Query exampleEnvironment exampleQuery, Query failingEnvironment exampleQuery,
      Query exampleEnvironment exampleQuery]"



section \<open>Evaluation of the example roundings\<close>

lemma log2floor_numeral [simp]:
  "log2floor 0 = 0"
  "log2floor (Suc 0) = 0"
  "log2floor (numeral k) =
     (if numeral k < (2::nat) then 0 else Suc (log2floor (numeral k div 2)))"
  by (simp_all add: log2floor.simps [of 0] log2floor.simps [of "Suc 0"]
      log2floor.simps [of "numeral k"])

lemmas roundDouble_eval =
  roundDouble_def binaryExponent_def pow2_def roundHalfEven_def mulD_def addD_def divD_def
  Let_def

lemma roundDouble_third: "roundDouble (55 / 3) = 5160374573028693 / 2 ^ 48"
  by (simp add: roundDouble_eval)

lemma roundDouble_inexact: "roundDouble (55 / 3) < 55 / 3"
  by (simp add: roundDouble_third)

lemma latin1LowerCase_accent: "latin1LowerCase (CHR 0xC9 # ''COLE'') = CHR 0xE9 # ''cole''"
  by (simp add: latin1LowerCase_def lowerChar_def)

section \<open>Properties of recordToolUsage\<close>

lemmas registerTool_eval =
  registerTool_def validateToolDefinition_def idOrUuid_def indexTool_def indexCategory_def
  addToIndex_def emptyRegistry_def Let_def

lemma echoRegistry_usageStats: "usageStats echoRegistry = [(''echo-1'', initialStats)]"
  by (simp add: echoRegistry_def echoTool_def registerTool_eval)

lemma timedRegistry_usageStats:
  "usageStats timedRegistry =
     [(''echo-1'',
       \<lparr>successCount = 2, failureCount = 0, averageExecutionTime = 15, totalExecutions = 2,
        lastUsed = Some ''2026-01-01T00:00:02.000Z''\<rparr>)]"
  by (simp add: timedRegistry_def echoRegistry_usageStats recordToolUsage_def timed_def
      updateCounts_def updateExecutionTime_def initialStats_def roundDouble_eval)

lemma recordToolUsage_lookup:
  "map_of (usageStats r) toolId = Some cur \<Longrightarrow>
   map_of (usageStats (snd (recordToolUsage rnd toolId u now r))) toolId =
     Some ((updateExecutionTime rnd u (updateCounts u cur))\<lparr>lastUsed := Some now\<rparr>)"
  by (simp add: recordToolUsage_def Let_def update_conv')

lemma recordToolUsage_other:
  "k \<noteq> toolId \<Longrightarrow>
   map_of (usageStats (snd (recordToolUsage rnd toolId u now r))) k = map_of (usageStats r) k"
  by (simp add: recordToolUsage_def Let_def update_conv' split: option.splits)

text \<open>
  C7. For a tool with \<open>n\<close> recorded executions and average execution time \<open>a\<close>, a
  \<open>recordToolUsage\<close> call that carries a numeric duration \<open>d\<close> returns \<open>true\<close>, sets the
  average to \<open>(a * n + d) / (n + 1)\<close> and the execution count to \<open>n + 1\<close>. The average is
  the double that the source computes: the product \<open>a * n\<close>, the sum with \<open>d\<close> and the
  quotient by \<open>n + 1\<close>, in this order, each rounded. This holds for every rounding.
\<close>

theorem recordToolUsage_average:
  assumes "map_of (usageStats r) toolId = Some cur"
    and "executionTime u = Some d"
    and "totalExecutions cur = n"
    and "averageExecutionTime cur = a"
  shows "fst (recordToolUsage rnd toolId u now r) = True \<and>
         (\<exists>new. map_of (usageStats (snd (recordToolUsage rnd toolId u now r))) toolId = Some new \<and>
            averageExecutionTime new =
              divD rnd (addD rnd (mulD rnd a (real n)) d) (real (n + 1)) \<and>
            totalExecutions new = n + 1)"
proof -
  have ret: "fst (recordToolUsage rnd toolId u now r) = True"
    using assms(1) by (simp add: recordToolUsage_def Let_def)
  let ?new = "(updateExecutionTime rnd u (updateCounts u cur))\<lparr>lastUsed := Some now\<rparr>"
  have tot: "totalExecutions (updateCounts u cur) = n"
    and avg: "averageExecutionTime (updateCounts u cur) = a"
    using assms(3,4) by (simp_all add: updateCounts_def)
  have "averageExecutionTime ?new = divD rnd (addD rnd (mulD rnd a (real n)) d) (real (n + 1))"
    using assms(2) tot avg by (simp add: updateExecutionTime_def Let_def)
  moreover have "totalExecutions ?new = n + 1"
    using assms(2) tot by (simp add: updateExecutionTime_def Let_def)
  ultimately show ?thesis
    using ret recordToolUsage_lookup [OF assms(1)] by simp
qed

text \<open>
  After uses of 10 and 20 milliseconds the average is 15; a third use of 25 milliseconds
  stores the double next below \<open>55 / 3\<close>, which prints as \<open>18.333333333333332\<close>.
\<close>

theorem recordToolUsage_average_witness:
  "map_of (usageStats timedRegistry) ''echo-1'' =
     Some \<lparr>successCount = 2, failureCount = 0, averageExecutionTime = 15, totalExecutions = 2,
           lastUsed = Some ''2026-01-01T00:00:02.000Z''\<rparr> \<and>
   executionTime (timed 25) = Some 25 \<and>
   fst (recordToolUsage roundDouble ''echo-1'' (timed 25) ''2026-01-01T00:00:03.000Z''
          timedRegistry) = True \<and>
   (\<exists>new. map_of (usageStats (snd (recordToolUsage roundDouble ''echo-1'' (timed 25)
                ''2026-01-01T00:00:03.000Z'' timedRegistry))) ''echo-1'' = Some new \<and>
          averageExecutionTime new = 5160374573028693 / 2 ^ 48 \<and> totalExecutions new = 3)"
proof -
  let ?cur = "\<lparr>successCount = 2, failureCount = 0, averageExecutionTime = 15,
               totalExecutions = 2, lastUsed = Some ''2026-01-01T00:00:02.000Z''\<rparr>"
  have h: "map_of (usageStats timedRegistry) ''echo-1'' = Some ?cur"
    by (simp add: timedRegistry_usageStats)
  have t: "executionTime (timed 25) = Some 25"
    by (simp add: timed_def)
  have n: "totalExecutions ?cur = 2" and a: "averageExecutionTime ?cur = 15"
    by simp_all
  have v: "divD roundDouble (addD roundDouble (mulD roundDouble 15 (real 2)) 25) (real (2 + 1))
           = 5160374573028693 / 2 ^ 48"
    by (simp add: roundDouble_eval)
  from recordToolUsage_average [OF h t n a, where rnd = roundDouble
      and now = "''2026-01-01T00:00:03.000Z''"] h t
  show ?thesis
    unfolding v by simp
qed

text \<open>
  C5 (as amended). Every \<open>recordToolUsage\<close> call on a known tool adds one to
  \<open>successCount + failureCount\<close>. It adds one to \<open>totalExecutions\<close> exactly when it
  carries a numeric execution time, and then it preserves
  \<open>successCount + failureCount = totalExecutions\<close>; in every case it preserves
  \<open>totalExecutions \<le> successCount + failureCount\<close>.
\<close>

theorem recordToolUsage_counts:
  assumes "map_of (usageStats r) toolId = Some cur"
  shows "\<exists>new. map_of (usageStats (snd (recordToolUsage rnd toolId u now r))) toolId = Some new \<and>
           successCount new + failureCount new = successCount cur + failureCount cur + 1 \<and>
           totalExecutions new =
             (if executionTime u = None then totalExecutions cur else totalExecutions cur + 1) \<and>
           (executionTime u \<noteq> None \<longrightarrow>
              successCount cur + failureCount cur = totalExecutions cur \<longrightarrow>
              successCount new + failureCount new = totalExecutions new) \<and>
           (totalExecutions cur \<le> successCount cur + failureCount cur \<longrightarrow>
              totalExecutions new \<le> successCount new + failureCount new)"
proof -
  let ?new = "(updateExecutionTime rnd u (updateCounts u cur))\<lparr>lastUsed := Some now\<rparr>"
  have sum: "successCount ?new + failureCount ?new = successCount cur + failureCount cur + 1"
    by (simp add: updateExecutionTime_def updateCounts_def Let_def split: option.splits)
  have tot: "totalExecutions ?new =
      (if executionTime u = None then totalExecutions cur else totalExecutions cur + 1)"
    by (simp add: updateExecutionTime_def updateCounts_def Let_def split: option.splits)
  show ?thesis
    using recordToolUsage_lookup [OF assms, where u = u and now = now and rnd = rnd] sum tot
    by auto
qed

theorem recordToolUsage_counts_witness:
  "map_of (usageStats echoRegistry) ''echo-1'' = Some initialStats \<and>
   executionTime timedUsage \<noteq> None \<and>
   successCount initialStats + failureCount initialStats = totalExecutions initialStats \<and>
   (\<exists>new. map_of (usageStats (snd (recordToolUsage roundDouble ''echo-1'' timedUsage
                ''2026-01-01T00:00:00.000Z'' echoRegistry))) ''echo-1'' = Some new \<and>
          successCount new + failureCount new = totalExecutions new)"
proof -
  have h: "map_of (usageStats echoRegistry) ''echo-1'' = Some initialStats"
    by (simp add: echoRegistry_usageStats)
  have t: "executionTime timedUsage \<noteq> None"
    by (simp add: timedUsage_def)
  have e: "successCount initialStats + failureCount initialStats = totalExecutions initialStats"
    by (simp add: initialStats_def)
  from recordToolUsage_counts [OF h, where u = timedUsage and rnd = roundDouble
      and now = "''2026-01-01T00:00:00.000Z''"] h t e
  show ?thesis
    by auto
qed

text \<open>
  C5 as the spec states it fails: on the freshly registered tool, whose counts are all 0, a
  successful call without a numeric execution time leaves \<open>successCount = 1\<close> and
  \<open>totalExecutions = 0\<close>.
\<close>

theorem recordToolUsage_untimed_counterexample:
  "map_of (usageStats echoRegistry) ''echo-1'' = Some initialStats \<and>
   successCount initialStats + failureCount initialStats = totalExecutions initialStats \<and>
   map_of (usageStats (snd (recordToolUsage roundDouble ''echo-1'' untimedUsage
             ''2026-01-01T00:00:00.000Z'' echoRegistry))) ''echo-1'' = Some statsAfterUntimed \<and>
   successCount statsAfterUntimed + failureCount statsAfterUntimed
     \<noteq> totalExecutions statsAfterUntimed"
  by (simp add: echoRegistry_usageStats recordToolUsage_def untimedUsage_def updateCounts_def
      updateExecutionTime_def initialStats_def statsAfterUntimed_def Let_def)

section \<open>Evaluation of the example registries\<close>

lemmas example_tools =
  plainTool_def zetaTool_def alphaTool_def forecastTool_def repeatTool_def echoTool_def

lemma tieRegistry_tools: "tools tieRegistry = [(''z-1'', zetaTool), (''a-1'', alphaTool)]"
  and tieRegistry_stats:
    "usageStats tieRegistry = [(''z-1'', initialStats), (''a-1'', initialStats)]"
  by (simp_all add: tieRegistry_def example_tools registerTool_eval)

lemma forecastRegistry_tools: "tools forecastRegistry = [(''f-1'', forecastTool)]"
  and forecastRegistry_stats: "usageStats forecastRegistry = [(''f-1'', initialStats)]"
  by (simp_all add: forecastRegistry_def example_tools registerTool_eval)

lemma echoRegistry_tools: "tools echoRegistry = [(''echo-1'', echoTool)]"
  by (simp add: echoRegistry_def example_tools registerTool_eval)

lemma weightRegistry_tools:
  "tools weightRegistry = [(''echo-1'', echoTool), (''rep-1'', repeatTool)]"
  and weightRegistry_stats:
    "usageStats weightRegistry = [(''echo-1'', initialStats), (''rep-1'', repeatStats)]"
  by (simp_all add: weightRegistry_def echoRegistry_def example_tools registerTool_eval
      recordToolUsage_def timedUsage_def updateCounts_def updateExecutionTime_def
      initialStats_def repeatStats_def roundDouble_eval)

lemma closeRegistry_tools: "tools closeRegistry = [(''a-1'', alphaTool), (''echo-1'', echoTool)]"
  and closeRegistry_stats:
    "usageStats closeRegistry = [(''a-1'', alphaStats), (''echo-1'', echoStats)]"
  by (simp_all add: closeRegistry_def example_tools registerTool_eval)

lemmas score_eval =
  rankedScores_def getToolRecommendations_def scoreTool_def descriptionMatches_def
  performanceWeight_def strIncludes_def latin1LowerCase_def lowerChar_def sublist_Cons_right
  initialStats_def roundDouble_eval

lemma tie_ranked:
  "rankedScores latin1LowerCase roundDouble tieRegistry ''data'' =
     Inr [(''z-1'', 10), (''a-1'', 10)]"
  by (simp add: score_eval tieRegistry_tools tieRegistry_stats example_tools)

lemma tie_recommend:
  "getToolRecommendations latin1LowerCase roundDouble ''data'' tieRegistry =
     Inr [Some zetaTool, Some alphaTool]"
  by (simp add: getToolRecommendations_def tie_ranked tieRegistry_tools)

lemma forecast_recommend:
  "getToolRecommendations latin1LowerCase roundDouble ''weather'' forecastRegistry = Inr []"
  by (simp add: score_eval forecastRegistry_tools forecastRegistry_stats example_tools)

lemma weight_ranked:
  "rankedScores latin1LowerCase roundDouble weightRegistry ''echo say'' =
     Inr [(''echo-1'', 15), (''rep-1'', 10)]"
  by (simp add: score_eval weightRegistry_tools weightRegistry_stats example_tools
      repeatStats_def)

text \<open>
  The scores of \<open>alpha\<close> and \<open>Echo\<close> in \<open>closeRegistry\<close> are the doubles that print as
  \<open>8.333333333333332\<close> and \<open>8.333333333333334\<close>: \<open>Echo\<close>, registered second, is ranked
  first.
\<close>

lemma close_weights:
  "performanceWeight roundDouble alphaStats 10 = 4691249611844266 / 2 ^ 49"
  "performanceWeight roundDouble echoStats 15 = 4691249611844267 / 2 ^ 49"
  by (simp_all add: performanceWeight_def alphaStats_def echoStats_def roundDouble_eval)

lemma close_ranked:
  "rankedScores latin1LowerCase roundDouble closeRegistry ''echo data'' =
     Inr [(''echo-1'', 4691249611844267 / 2 ^ 49), (''a-1'', 4691249611844266 / 2 ^ 49)]"
proof -
  have "scoreEntries latin1LowerCase roundDouble closeRegistry ''echo data''
          (tools closeRegistry) [] =
        Inr [(''a-1'', performanceWeight roundDouble alphaStats 10),
             (''echo-1'', performanceWeight roundDouble echoStats 15)]"
    unfolding closeRegistry_tools
    by (simp add: scoreTool_def descriptionMatches_def strIncludes_def sublist_Cons_right
        latin1LowerCase_def lowerChar_def closeRegistry_stats example_tools close_weights
        Let_def)
  then show ?thesis
    by (simp add: rankedScores_def close_weights latin1LowerCase_def lowerChar_def)
qed

lemmas spec_eval =
  specScore_def specWeight_def threeGrams_def strIncludes_def latin1LowerCase_def lowerChar_def
  sublist_Cons_right initialStats_def

lemma tie_spec:
  "specScore latin1LowerCase tieRegistry ''data'' (''z-1'', zetaTool) =
   specScore latin1LowerCase tieRegistry ''data'' (''a-1'', alphaTool)"
  by (simp add: spec_eval tieRegistry_stats example_tools)

lemma forecast_spec:
  "specScore latin1LowerCase forecastRegistry ''weather'' (''f-1'', forecastTool) = 3 / 2"
  by (simp add: spec_eval forecastRegistry_stats example_tools upt_rec)

lemma weight_spec:
  "specScore latin1LowerCase weightRegistry ''echo say'' (''echo-1'', echoTool) = 15 / 2"
  "specScore latin1LowerCase weightRegistry ''echo say'' (''rep-1'', repeatTool) = 10"
  by (simp_all add: spec_eval weightRegistry_stats example_tools repeatStats_def upt_rec)


lemma echoRegistry_nameIndex: "nameIndex echoRegistry ''echo'' = Some ''echo-1''"
  by (simp add: echoRegistry_def example_tools registerTool_eval latin1LowerCase_def lowerChar_def)

lemma echoRegistry_indices:
  "categories echoRegistry = [''utility'' \<mapsto> {''echo-1''}]"
  "capabilityIndex echoRegistry = [''text'' \<mapsto> {''echo-1''}]"
  "keywordIndex echoRegistry = [''echo'' \<mapsto> {''echo-1''}]"
  by (simp_all add: echoRegistry_def example_tools registerTool_eval latin1LowerCase_def
      lowerChar_def)

lemmas find_eval =
  findTools_def findToolIds_def noCriteria_def filterByIndex_def filterByType_def
  latin1LowerCase_def lowerChar_def

section \<open>Properties of registerTool\<close>

text \<open>
  C3 (as amended). A definition that the validator rejects is not registered:
  \<open>registerTool\<close> catches the error, returns \<open>false\<close> and leaves the registry as it was.
  With the validator of the specification that is every definition without a name or
  without an \<open>execute\<close> handle.
\<close>

theorem registerTool_rejects_invalid:
  "(validate toolDefinition = Inl e \<longrightarrow>
      registerTool toLowerCase validate uuid toolDefinition r = (False, r)) \<and>
   (name toolDefinition = None \<or> execute toolDefinition = None \<longrightarrow>
      validateToolDefinition toolDefinition = Inl ValidationError \<and>
      registerTool toLowerCase validateToolDefinition uuid toolDefinition r = (False, r))"
  by (simp add: registerTool_def validateToolDefinition_def)

theorem registerTool_rejects_invalid_witness:
  "execute handlerlessTool = None \<and>
   validateToolDefinition handlerlessTool = Inl ValidationError \<and>
   registerTool latin1LowerCase validateToolDefinition ''uuid-1'' handlerlessTool echoRegistry =
     (False, echoRegistry)"
proof -
  have h: "execute handlerlessTool = None"
    by (simp add: handlerlessTool_def)
  from registerTool_rejects_invalid [where validate = validateToolDefinition
      and toolDefinition = handlerlessTool and e = ValidationError and uuid = "''uuid-1''"
      and r = echoRegistry and toLowerCase = latin1LowerCase] h
  show ?thesis by simp
qed

text \<open>
  C3 as stated fails for name collisions: \<open>ECHO\<close> collides with the registered \<open>Echo\<close>,
  yet the registration succeeds, adds the tool and re-points the name index.
\<close>

theorem registerTool_name_collision_counterexample:
  "name echoTool = Some ''Echo'' \<and> name shoutTool = Some ''ECHO'' \<and>
   latin1LowerCase ''Echo'' = latin1LowerCase ''ECHO'' \<and>
   tools echoRegistry = [(''echo-1'', echoTool)] \<and>
   nameIndex echoRegistry (latin1LowerCase ''ECHO'') = Some ''echo-1'' \<and>
   fst (registerTool latin1LowerCase validateToolDefinition ''uuid-1'' shoutTool echoRegistry)
     = True \<and>
   tools (snd (registerTool latin1LowerCase validateToolDefinition ''uuid-1'' shoutTool
                 echoRegistry)) =
     [(''echo-1'', echoTool), (''echo-2'', shoutTool)] \<and>
   nameIndex (snd (registerTool latin1LowerCase validateToolDefinition ''uuid-1'' shoutTool
                     echoRegistry))
     (latin1LowerCase ''ECHO'') = Some ''echo-2''"
  by (simp add: echoRegistry_def shoutTool_def example_tools registerTool_eval
      latin1LowerCase_def lowerChar_def)

section \<open>Properties of findTools\<close>

lemma findToolIds_noCriteria: "findToolIds toLowerCase noCriteria r = map fst (tools r)"
  by (simp add: findToolIds_def noCriteria_def filterByIndex_def filterByType_def)

lemma findTools_noCriteria:
  "distinct (map fst (tools r)) \<Longrightarrow>
   findTools toLowerCase noCriteria r = map (\<lambda>entry. Some (snd entry)) (tools r)"
  by (simp add: findTools_def findToolIds_noCriteria map_of_is_SomeI)

text \<open>
  C4. \<open>findTools\<close> with a keyword that no tool has returns the tool all the same: the
  keyword filter skips a keyword without an index entry. The category and the capability
  filter return nothing for an unknown key.
\<close>

theorem findTools_unknown_keyword_ignored:
  "toolKeywords echoTool = Some [''echo''] \<and>
   keywordIndex echoRegistry (latin1LowerCase ''stocks'') = None \<and>
   findTools latin1LowerCase (noCriteria\<lparr>crit_keywords := Some [''stocks'']\<rparr>) echoRegistry =
     [Some echoTool] \<and>
   findTools latin1LowerCase (noCriteria\<lparr>crit_keywords := Some [''echo'', ''stocks'']\<rparr>)
     echoRegistry = [Some echoTool] \<and>
   findTools latin1LowerCase (noCriteria\<lparr>crit_category := Some ''finance''\<rparr>) echoRegistry = [] \<and>
   findTools latin1LowerCase (noCriteria\<lparr>crit_capability := Some ''Search''\<rparr>) echoRegistry = []"
  by (simp add: find_eval echoRegistry_indices echoRegistry_tools echoTool_def)

section \<open>Properties of getToolRecommendations\<close>

lemma keywordScore_count:
  "keywordScore toLowerCase ql ks s =
     s + 10 * real (length (filter (\<lambda>k. strIncludes ql (toLowerCase k)) ks))"
  by (induction ks arbitrary: s) simp_all

lemma performanceWeight_eq:
  "performanceWeight rnd stats s =
     (if successCount stats + failureCount stats > 0
      then mulD rnd s (successWeight rnd stats) else s)"
  by (simp add: performanceWeight_def successWeight_def Let_def)

lemma scoreTool_eq:
  assumes "name (snd entry) \<noteq> None"
  shows "scoreTool toLowerCase rnd r ql entry = Inr (matchScore toLowerCase rnd r ql entry)"
proof (cases entry)
  case (Pair i t)
  with assms obtain n where n: "name t = Some n" by auto
  show ?thesis
    using Pair n
    by (simp add: scoreTool_def matchScore_def matchSum_def performanceWeight_eq Let_def
        keywordScore_count split: option.splits)
qed

lemma update_fresh: "k \<notin> fst ` set al \<Longrightarrow> AList.update k v al = al @ [(k, v)]"
  by (induction al) auto

lemma scoreEntries_eq:
  assumes "\<forall>entry \<in> set entries. name (snd entry) \<noteq> None"
    and "distinct (map fst entries)"
    and "fst ` set entries \<inter> fst ` set acc = {}"
  shows "scoreEntries toLowerCase rnd r ql entries acc =
           Inr (acc @ filter (\<lambda>e. snd e > 0)
                        (map (\<lambda>entry. (fst entry, matchScore toLowerCase rnd r ql entry)) entries))"
  using assms
proof (induction entries arbitrary: acc)
  case Nil
  then show ?case by simp
next
  case (Cons entry rest)
  have s: "scoreTool toLowerCase rnd r ql entry = Inr (matchScore toLowerCase rnd r ql entry)"
    using Cons.prems(1) by (simp add: scoreTool_eq)
  have fresh: "fst entry \<notin> fst ` set acc"
    using Cons.prems(3) by auto
  let ?acc = "if matchScore toLowerCase rnd r ql entry > 0
              then AList.update (fst entry) (matchScore toLowerCase rnd r ql entry) acc else acc"
  have disj: "fst ` set rest \<inter> fst ` set ?acc = {}"
    using Cons.prems(2,3) fresh by (auto simp: update_fresh)
  have "scoreEntries toLowerCase rnd r ql rest ?acc =
      Inr (?acc @ filter (\<lambda>e. snd e > 0)
                    (map (\<lambda>entry. (fst entry, matchScore toLowerCase rnd r ql entry)) rest))"
    using Cons.prems(1,2) disj by (intro Cons.IH) simp_all
  then show ?case
    using s fresh by (simp add: update_fresh)
qed

lemma rankedScores_eq:
  assumes "\<forall>entry \<in> set (tools r). name (snd entry) \<noteq> None"
    and "distinct (map fst (tools r))"
  shows "rankedScores toLowerCase rnd r query =
           Inr (sort_key (\<lambda>e. - snd e) (positiveScores toLowerCase rnd r query))"
  using scoreEntries_eq [OF assms, where acc = "[]" and r = r and ql = "toLowerCase query"
      and toLowerCase = toLowerCase and rnd = rnd]
  by (simp add: rankedScores_def positiveScores_def)

lemma sorted_descending:
  "sorted_wrt (\<lambda>a b. snd b \<le> snd a) (sort_key (\<lambda>e. - snd e) (xs :: ('a \<times> real) list))"
proof -
  have "sorted (map (\<lambda>e. - snd e) (sort_key (\<lambda>e. - snd e) xs))"
    by (rule sorted_sort_key)
  then show ?thesis
    by (simp add: sorted_map) 
qed

text \<open>
  C2 (as amended). When every registered tool has a name, \<open>getToolRecommendations\<close>
  returns exactly the tools whose score is positive, by descending score, tools of equal
  score in the order of the registry. The score is \<open>matchScore\<close>: 10 for every keyword
  whose lower-case form the lower-cased query includes, 5 if it includes the lower-cased
  name, 3 if it includes the whole lower-cased description, the sum multiplied by
  \<open>0.5 + 0.5 * (successCount / (successCount + failureCount))\<close> when that denominator is
  positive. The quotient, the two operations of the weight and the product are each
  rounded to a double, and the ranking compares the rounded scores. This holds for every
  \<open>toLowerCase\<close> and every rounding.
\<close>

theorem getToolRecommendations_ranking:
  assumes "\<forall>entry \<in> set (tools r). name (snd entry) \<noteq> None"
    and "distinct (map fst (tools r))"
  shows "\<exists>ranked.
           rankedScores toLowerCase rnd r query = Inr ranked \<and>
           getToolRecommendations toLowerCase rnd query r =
             Inr (map (\<lambda>e. map_of (tools r) (fst e)) ranked) \<and>
           set ranked = set (positiveScores toLowerCase rnd r query) \<and>
           length ranked = length (positiveScores toLowerCase rnd r query) \<and>
           sorted_wrt (\<lambda>a b. snd b \<le> snd a) ranked \<and>
           (\<forall>s. filter (\<lambda>e. snd e = s) ranked =
                filter (\<lambda>e. snd e = s) (positiveScores toLowerCase rnd r query)) \<and>
           (\<forall>e \<in> set ranked. \<exists>t. map_of (tools r) (fst e) = Some t \<and>
              snd e = matchScore toLowerCase rnd r (toLowerCase query) (fst e, t) \<and> snd e > 0)"
proof -
  let ?positive = "positiveScores toLowerCase rnd r query"
  let ?ranked = "sort_key (\<lambda>e. - snd e) ?positive"
  have r: "rankedScores toLowerCase rnd r query = Inr ?ranked"
    by (rule rankedScores_eq [OF assms])
  have g: "getToolRecommendations toLowerCase rnd query r =
             Inr (map (\<lambda>e. map_of (tools r) (fst e)) ?ranked)"
    by (simp add: getToolRecommendations_def r)
  have stable: "\<forall>s. filter (\<lambda>e. snd e = s) ?ranked = filter (\<lambda>e. snd e = s) ?positive"
  proof
    fix s :: real
    have "filter (\<lambda>e. - snd e = - s) ?ranked = filter (\<lambda>e. - snd e = - s) ?positive"
      by (rule sort_key_stable)
    then show "filter (\<lambda>e. snd e = s) ?ranked = filter (\<lambda>e. snd e = s) ?positive"
      by simp
  qed
  have mem: "\<forall>e \<in> set ?ranked. \<exists>t. map_of (tools r) (fst e) = Some t \<and>
              snd e = matchScore toLowerCase rnd r (toLowerCase query) (fst e, t) \<and> snd e > 0"
  proof
    fix e assume "e \<in> set ?ranked"
    then obtain entry where en: "entry \<in> set (tools r)"
      "e = (fst entry, matchScore toLowerCase rnd r (toLowerCase query) entry)" "snd e > 0"
      by (auto simp: positiveScores_def)
    from en(1) have "map_of (tools r) (fst entry) = Some (snd entry)"
      using assms(2) by (intro map_of_is_SomeI) simp_all
    with en show "\<exists>t. map_of (tools r) (fst e) = Some t \<and>
              snd e = matchScore toLowerCase rnd r (toLowerCase query) (fst e, t) \<and> snd e > 0"
      by simp
  qed
  show ?thesis
    using r g stable mem sorted_descending [of ?positive]
    by (intro exI [of _ ?ranked]) simp
qed

text \<open>
  In \<open>closeRegistry\<close> the two scores are distinct doubles, one unit in the last place
  apart, and \<open>Echo\<close> comes first although it was registered second.
\<close>

theorem getToolRecommendations_ranking_witness:
  "list_all (\<lambda>entry. name (snd entry) \<noteq> None) (tools closeRegistry) \<and>
   distinct (map fst (tools closeRegistry)) \<and>
   (\<exists>ranked.
      rankedScores latin1LowerCase roundDouble closeRegistry ''echo data'' = Inr ranked \<and>
      ranked = [(''echo-1'', 4691249611844267 / 2 ^ 49), (''a-1'', 4691249611844266 / 2 ^ 49)] \<and>
      getToolRecommendations latin1LowerCase roundDouble ''echo data'' closeRegistry =
        Inr (map (\<lambda>e. map_of (tools closeRegistry) (fst e)) ranked) \<and>
      set ranked = set (positiveScores latin1LowerCase roundDouble closeRegistry ''echo data'') \<and>
      sorted_wrt (\<lambda>a b. snd b \<le> snd a) ranked) \<and>
   getToolRecommendations latin1LowerCase roundDouble ''echo data'' closeRegistry =
     Inr [Some echoTool, Some alphaTool]"
proof -
  have n: "\<forall>entry \<in> set (tools closeRegistry). name (snd entry) \<noteq> None"
    by (simp add: closeRegistry_tools example_tools)
  have d: "distinct (map fst (tools closeRegistry))"
    by (simp add: closeRegistry_tools)
  have g: "getToolRecommendations latin1LowerCase roundDouble ''echo data'' closeRegistry =
             Inr [Some echoTool, Some alphaTool]"
    by (simp add: getToolRecommendations_def close_ranked closeRegistry_tools)
  from getToolRecommendations_ranking [OF n d, where query = "''echo data''"
      and toLowerCase = latin1LowerCase and rnd = roundDouble] n d close_ranked g
  show ?thesis
    by (auto simp: list_all_iff)
qed

text \<open>
  C2 as stated fails in three ways. Two tools of equal score and equal success rate come
  out in registry order, \<open>zeta\<close> before \<open>alpha\<close>. A description of which the query holds
  a 3-gram, but not the whole, scores nothing. An unused tool keeps its full score, 15,
  and stays ahead of a used tool of score 10, where the stated weight would halve it.
\<close>

theorem getToolRecommendations_spec_counterexample:
  "getToolRecommendations latin1LowerCase roundDouble ''data'' tieRegistry =
     Inr [Some zetaTool, Some alphaTool] \<and>
   specScore latin1LowerCase tieRegistry ''data'' (''z-1'', zetaTool) =
     specScore latin1LowerCase tieRegistry ''data'' (''a-1'', alphaTool) \<and>
   map_of (usageStats tieRegistry) ''z-1'' = map_of (usageStats tieRegistry) ''a-1'' \<and>
   name zetaTool = Some ''zeta'' \<and> name alphaTool = Some ''alpha'' \<and> ''alpha'' < ''zeta'' \<and>
   getToolRecommendations latin1LowerCase roundDouble ''weather'' forecastRegistry = Inr [] \<and>
   0 < specScore latin1LowerCase forecastRegistry ''weather'' (''f-1'', forecastTool) \<and>
   getToolRecommendations latin1LowerCase roundDouble ''echo say'' weightRegistry =
     Inr [Some echoTool, Some repeatTool] \<and>
   specScore latin1LowerCase weightRegistry ''echo say'' (''echo-1'', echoTool) <
     specScore latin1LowerCase weightRegistry ''echo say'' (''rep-1'', repeatTool)"
proof -
  have "getToolRecommendations latin1LowerCase roundDouble ''echo say'' weightRegistry =
          Inr [Some echoTool, Some repeatTool]"
    by (simp add: getToolRecommendations_def weight_ranked weightRegistry_tools)
  then show ?thesis
    using tie_recommend tie_spec forecast_recommend forecast_spec weight_spec
    by (simp add: tieRegistry_stats example_tools)
qed

section \<open>Coherence of the indices under registerTool and unregisterTool\<close>

subsection \<open>index operations\<close>

lemma indexed_addToIndex:
  "indexed (addToIndex key i idx) k j \<longleftrightarrow> indexed idx k j \<or> (k = key \<and> j = i)"
  by (auto simp: indexed_def addToIndex_def split: option.splits)

lemma noEmptyEntry_addToIndex:
  "noEmptyEntry idx \<Longrightarrow> noEmptyEntry (addToIndex key i idx)"
  by (auto simp: noEmptyEntry_def addToIndex_def split: option.splits)

lemma indexed_removeFromIndex:
  "indexed (removeFromIndex key i idx) k j \<longleftrightarrow> indexed idx k j \<and> \<not> (k = key \<and> j = i)"
  by (auto simp: indexed_def removeFromIndex_def split: option.splits)

lemma noEmptyEntry_removeFromIndex:
  "noEmptyEntry idx \<Longrightarrow> noEmptyEntry (removeFromIndex key i idx)"
  by (auto simp: noEmptyEntry_def removeFromIndex_def split: option.splits)

lemma indexCapabilities_other [simp]:
  "tools (indexCapabilities toLowerCase i cs r) = tools r"
  "categories (indexCapabilities toLowerCase i cs r) = categories r"
  "nameIndex (indexCapabilities toLowerCase i cs r) = nameIndex r"
  "keywordIndex (indexCapabilities toLowerCase i cs r) = keywordIndex r"
  "usageStats (indexCapabilities toLowerCase i cs r) = usageStats r"
  by (induction cs arbitrary: r) simp_all

lemma indexCapabilities_indexed:
  "indexed (capabilityIndex (indexCapabilities toLowerCase i cs r)) k j \<longleftrightarrow>
     indexed (capabilityIndex r) k j \<or> (j = i \<and> k \<in> toLowerCase ` set cs)"
  by (induction cs arbitrary: r) (auto simp: indexed_addToIndex)

lemma indexCapabilities_noEmpty:
  "noEmptyEntry (capabilityIndex r) \<Longrightarrow> noEmptyEntry (capabilityIndex (indexCapabilities toLowerCase i cs r))"
  by (induction cs arbitrary: r) (simp_all add: noEmptyEntry_addToIndex)

lemma indexKeywords_other [simp]:
  "tools (indexKeywords toLowerCase i ks r) = tools r"
  "categories (indexKeywords toLowerCase i ks r) = categories r"
  "nameIndex (indexKeywords toLowerCase i ks r) = nameIndex r"
  "capabilityIndex (indexKeywords toLowerCase i ks r) = capabilityIndex r"
  "allCapabilities (indexKeywords toLowerCase i ks r) = allCapabilities r"
  "usageStats (indexKeywords toLowerCase i ks r) = usageStats r"
  by (induction ks arbitrary: r) simp_all

lemma indexKeywords_indexed:
  "indexed (keywordIndex (indexKeywords toLowerCase i ks r)) k j \<longleftrightarrow>
     indexed (keywordIndex r) k j \<or> (j = i \<and> k \<in> toLowerCase ` set ks)"
  by (induction ks arbitrary: r) (auto simp: indexed_addToIndex)

lemma indexKeywords_noEmpty:
  "noEmptyEntry (keywordIndex r) \<Longrightarrow> noEmptyEntry (keywordIndex (indexKeywords toLowerCase i ks r))"
  by (induction ks arbitrary: r) (simp_all add: noEmptyEntry_addToIndex)

lemma indexCategory_other [simp]:
  "tools (indexCategory i t r) = tools r"
  "nameIndex (indexCategory i t r) = nameIndex r"
  "capabilityIndex (indexCategory i t r) = capabilityIndex r"
  "keywordIndex (indexCategory i t r) = keywordIndex r"
  "allCapabilities (indexCategory i t r) = allCapabilities r"
  "usageStats (indexCategory i t r) = usageStats r"
  by (simp_all add: indexCategory_def split: option.splits)

lemma indexCategory_indexed:
  "indexed (categories (indexCategory i t r)) c j \<longleftrightarrow>
     indexed (categories r) c j \<or> (j = i \<and> c \<in> categoryKeys t)"
  by (auto simp: indexCategory_def categoryKeys_def indexed_addToIndex split: option.splits)

lemma indexCategory_noEmpty:
  "noEmptyEntry (categories r) \<Longrightarrow> noEmptyEntry (categories (indexCategory i t r))"
  by (simp add: indexCategory_def noEmptyEntry_addToIndex split: option.splits)

text \<open>the fields of the registry after indexTool\<close>

lemma indexTool_tools [simp]: "tools (indexTool toLowerCase i n t r) = tools r"
  by (simp add: indexTool_def Let_def split: option.splits)

lemma indexTool_nameIndex [simp]:
  "nameIndex (indexTool toLowerCase i n t r) = (nameIndex r)(toLowerCase n \<mapsto> i)"
  by (simp add: indexTool_def Let_def split: option.splits)

lemma indexTool_usageStats [simp]:
  "usageStats (indexTool toLowerCase i n t r) = AList.update i initialStats (usageStats r)"
  by (simp add: indexTool_def Let_def split: option.splits)

lemma indexTool_categories:
  "indexed (categories (indexTool toLowerCase i n t r)) c j \<longleftrightarrow>
     indexed (categories r) c j \<or> (j = i \<and> c \<in> categoryKeys t)"
  by (simp add: indexTool_def Let_def indexCategory_indexed split: option.splits)

lemma indexTool_capabilityIndex:
  "indexed (capabilityIndex (indexTool toLowerCase i n t r)) k j \<longleftrightarrow>
     indexed (capabilityIndex r) k j \<or> (j = i \<and> k \<in> capabilityKeys toLowerCase t)"
  by (simp add: indexTool_def Let_def indexCapabilities_indexed capabilityKeys_def
      split: option.splits)

lemma indexTool_keywordIndex:
  "indexed (keywordIndex (indexTool toLowerCase i n t r)) k j \<longleftrightarrow>
     indexed (keywordIndex r) k j \<or> (j = i \<and> k \<in> keywordKeys toLowerCase t)"
  by (simp add: indexTool_def Let_def indexKeywords_indexed keywordKeys_def
      split: option.splits)

lemma indexTool_noEmpty:
  "noEmptyEntry (categories r) \<Longrightarrow> noEmptyEntry (categories (indexTool toLowerCase i n t r))"
  "noEmptyEntry (capabilityIndex r) \<Longrightarrow> noEmptyEntry (capabilityIndex (indexTool toLowerCase i n t r))"
  "noEmptyEntry (keywordIndex r) \<Longrightarrow> noEmptyEntry (keywordIndex (indexTool toLowerCase i n t r))"
  by (simp_all add: indexTool_def Let_def indexCategory_noEmpty indexCapabilities_noEmpty
      indexKeywords_noEmpty split: option.splits)


lemma coherentI:
  assumes "distinct (map fst (tools r))"
    and "\<And>i t. map_of (tools r) i = Some t \<Longrightarrow> name t \<noteq> None"
    and "\<And>n i. nameIndex r n = Some i \<longleftrightarrow>
               (\<exists>t. map_of (tools r) i = Some t \<and> lowerName toLowerCase t = Some n)"
    and "\<And>c i. indexed (categories r) c i \<longleftrightarrow>
               (\<exists>t. map_of (tools r) i = Some t \<and> c \<in> categoryKeys t)"
    and "\<And>k i. indexed (capabilityIndex r) k i \<longleftrightarrow>
               (\<exists>t. map_of (tools r) i = Some t \<and> k \<in> capabilityKeys toLowerCase t)"
    and "\<And>k i. indexed (keywordIndex r) k i \<longleftrightarrow>
               (\<exists>t. map_of (tools r) i = Some t \<and> k \<in> keywordKeys toLowerCase t)"
    and "noEmptyEntry (categories r)" and "noEmptyEntry (capabilityIndex r)"
    and "noEmptyEntry (keywordIndex r)"
  shows "coherent toLowerCase r"
  using assms unfolding coherent_def by blast

lemma coherentD:
  assumes "coherent toLowerCase r"
  shows "distinct (map fst (tools r))"
    and "\<And>i t. map_of (tools r) i = Some t \<Longrightarrow> name t \<noteq> None"
    and "\<And>n i. nameIndex r n = Some i \<longleftrightarrow>
               (\<exists>t. map_of (tools r) i = Some t \<and> lowerName toLowerCase t = Some n)"
    and "\<And>c i. indexed (categories r) c i \<longleftrightarrow>
               (\<exists>t. map_of (tools r) i = Some t \<and> c \<in> categoryKeys t)"
    and "\<And>k i. indexed (capabilityIndex r) k i \<longleftrightarrow>
               (\<exists>t. map_of (tools r) i = Some t \<and> k \<in> capabilityKeys toLowerCase t)"
    and "\<And>k i. indexed (keywordIndex r) k i \<longleftrightarrow>
               (\<exists>t. map_of (tools r) i = Some t \<and> k \<in> keywordKeys toLowerCase t)"
    and "noEmptyEntry (categories r)" and "noEmptyEntry (capabilityIndex r)"
    and "noEmptyEntry (keywordIndex r)"
  using assms unfolding coherent_def by blast+

lemma coherent_empty: "coherent toLowerCase emptyRegistry"
  by (simp add: coherent_def emptyRegistry_def indexed_def noEmptyEntry_def)

lemma coherent_register:
  assumes c: "coherent toLowerCase r"
    and fresh: "map_of (tools r) i = None"
    and n: "name t = Some n"
    and free: "nameIndex r (toLowerCase n) = None"
  shows "coherent toLowerCase (indexTool toLowerCase i n t (r\<lparr>tools := AList.update i t (tools r)\<rparr>))"
proof (rule coherentI)
  let ?r1 = "r\<lparr>tools := AList.update i t (tools r)\<rparr>"
  let ?r' = "indexTool toLowerCase i n t ?r1"
  note d = coherentD [OF c]
  have look: "\<And>j. map_of (AList.update i t (tools r)) j =
      (if j = i then Some t else map_of (tools r) j)"
    by (simp add: update_conv')
  have ln: "lowerName toLowerCase t = Some (toLowerCase n)"
    by (simp add: lowerName_def n)
  show "distinct (map fst (tools ?r'))"
    using d(1) by (simp add: distinct_update)
  show "\<And>j u. map_of (tools ?r') j = Some u \<Longrightarrow> name u \<noteq> None"
    using d(2) n by (auto simp: look split: if_splits)
  show "\<And>m j. nameIndex ?r' m = Some j \<longleftrightarrow>
               (\<exists>u. map_of (tools ?r') j = Some u \<and> lowerName toLowerCase u = Some m)"
  proof -
    fix m j
    show "nameIndex ?r' m = Some j \<longleftrightarrow>
               (\<exists>u. map_of (tools ?r') j = Some u \<and> lowerName toLowerCase u = Some m)"
    proof (cases "j = i")
      case True
      have "nameIndex r m \<noteq> Some i"
        using d(3) [of m i] fresh by simp
      then show ?thesis
        using True ln by (auto simp: look)
    next
      case False
      have "nameIndex r m = Some j \<Longrightarrow> m \<noteq> toLowerCase n"
        using free by auto
      then show ?thesis
        using False d(3) [of m j] by (auto simp: look)
    qed
  qed
  show "\<And>k j. indexed (categories ?r') k j \<longleftrightarrow>
               (\<exists>u. map_of (tools ?r') j = Some u \<and> k \<in> categoryKeys u)"
    using d(4) fresh by (auto simp: indexTool_categories look)
  show "\<And>k j. indexed (capabilityIndex ?r') k j \<longleftrightarrow>
               (\<exists>u. map_of (tools ?r') j = Some u \<and> k \<in> capabilityKeys toLowerCase u)"
    using d(5) fresh by (auto simp: indexTool_capabilityIndex look)
  show "\<And>k j. indexed (keywordIndex ?r') k j \<longleftrightarrow>
               (\<exists>u. map_of (tools ?r') j = Some u \<and> k \<in> keywordKeys toLowerCase u)"
    using d(6) fresh by (auto simp: indexTool_keywordIndex look)
  show "noEmptyEntry (categories ?r')" "noEmptyEntry (capabilityIndex ?r')"
    "noEmptyEntry (keywordIndex ?r')"
    using d(7,8,9) by (simp_all add: indexTool_noEmpty)
qed


lemma unindexCapabilities_other [simp]:
  "tools (unindexCapabilities toLowerCase i cs r) = tools r"
  "categories (unindexCapabilities toLowerCase i cs r) = categories r"
  "nameIndex (unindexCapabilities toLowerCase i cs r) = nameIndex r"
  "keywordIndex (unindexCapabilities toLowerCase i cs r) = keywordIndex r"
  "allCapabilities (unindexCapabilities toLowerCase i cs r) = allCapabilities r"
  "usageStats (unindexCapabilities toLowerCase i cs r) = usageStats r"
  by (induction cs arbitrary: r) simp_all

lemma unindexCapabilities_indexed:
  "indexed (capabilityIndex (unindexCapabilities toLowerCase i cs r)) k j \<longleftrightarrow>
     indexed (capabilityIndex r) k j \<and> \<not> (j = i \<and> k \<in> toLowerCase ` set cs)"
  by (induction cs arbitrary: r) (auto simp: indexed_removeFromIndex)

lemma unindexCapabilities_noEmpty:
  "noEmptyEntry (capabilityIndex r) \<Longrightarrow>
   noEmptyEntry (capabilityIndex (unindexCapabilities toLowerCase i cs r))"
  by (induction cs arbitrary: r) (simp_all add: noEmptyEntry_removeFromIndex)

lemma unindexKeywords_other [simp]:
  "tools (unindexKeywords toLowerCase i ks r) = tools r"
  "categories (unindexKeywords toLowerCase i ks r) = categories r"
  "nameIndex (unindexKeywords toLowerCase i ks r) = nameIndex r"
  "capabilityIndex (unindexKeywords toLowerCase i ks r) = capabilityIndex r"
  "allCapabilities (unindexKeywords toLowerCase i ks r) = allCapabilities r"
  "usageStats (unindexKeywords toLowerCase i ks r) = usageStats r"
  by (induction ks arbitrary: r) simp_all

lemma unindexKeywords_indexed:
  "indexed (keywordIndex (unindexKeywords toLowerCase i ks r)) k j \<longleftrightarrow>
     indexed (keywordIndex r) k j \<and> \<not> (j = i \<and> k \<in> toLowerCase ` set ks)"
  by (induction ks arbitrary: r) (auto simp: indexed_removeFromIndex)

lemma unindexKeywords_noEmpty:
  "noEmptyEntry (keywordIndex r) \<Longrightarrow> noEmptyEntry (keywordIndex (unindexKeywords toLowerCase i ks r))"
  by (induction ks arbitrary: r) (simp_all add: noEmptyEntry_removeFromIndex)

lemma unindexCategory_other [simp]:
  "tools (unindexCategory i t r) = tools r"
  "nameIndex (unindexCategory i t r) = nameIndex r"
  "capabilityIndex (unindexCategory i t r) = capabilityIndex r"
  "keywordIndex (unindexCategory i t r) = keywordIndex r"
  "allCapabilities (unindexCategory i t r) = allCapabilities r"
  "usageStats (unindexCategory i t r) = usageStats r"
  by (simp_all add: unindexCategory_def split: option.splits)

lemma unindexCategory_indexed:
  "indexed (categories (unindexCategory i t r)) c j \<longleftrightarrow>
     indexed (categories r) c j \<and> \<not> (j = i \<and> c \<in> categoryKeys t)"
  by (auto simp: unindexCategory_def categoryKeys_def indexed_removeFromIndex
      split: option.splits)

lemma unindexCategory_noEmpty:
  "noEmptyEntry (categories r) \<Longrightarrow> noEmptyEntry (categories (unindexCategory i t r))"
  by (simp add: unindexCategory_def noEmptyEntry_removeFromIndex split: option.splits)

lemma unindexTool_tools [simp]: "tools (unindexTool toLowerCase i n t r) = tools r"
  by (simp add: unindexTool_def Let_def split: option.splits)

lemma unindexTool_nameIndex [simp]:
  "nameIndex (unindexTool toLowerCase i n t r) = (nameIndex r)(toLowerCase n := None)"
  by (simp add: unindexTool_def Let_def split: option.splits)

lemma unindexTool_usageStats [simp]:
  "usageStats (unindexTool toLowerCase i n t r) = AList.delete i (usageStats r)"
  by (simp add: unindexTool_def Let_def split: option.splits)

lemma unindexTool_categories:
  "indexed (categories (unindexTool toLowerCase i n t r)) c j \<longleftrightarrow>
     indexed (categories r) c j \<and> \<not> (j = i \<and> c \<in> categoryKeys t)"
  by (simp add: unindexTool_def Let_def unindexCategory_indexed split: option.splits)

lemma unindexTool_capabilityIndex:
  "indexed (capabilityIndex (unindexTool toLowerCase i n t r)) k j \<longleftrightarrow>
     indexed (capabilityIndex r) k j \<and> \<not> (j = i \<and> k \<in> capabilityKeys toLowerCase t)"
  by (simp add: unindexTool_def Let_def unindexCapabilities_indexed capabilityKeys_def
      split: option.splits)

lemma unindexTool_keywordIndex:
  "indexed (keywordIndex (unindexTool toLowerCase i n t r)) k j \<longleftrightarrow>
     indexed (keywordIndex r) k j \<and> \<not> (j = i \<and> k \<in> keywordKeys toLowerCase t)"
  by (simp add: unindexTool_def Let_def unindexKeywords_indexed keywordKeys_def
      split: option.splits)

lemma unindexTool_noEmpty:
  "noEmptyEntry (categories r) \<Longrightarrow> noEmptyEntry (categories (unindexTool toLowerCase i n t r))"
  "noEmptyEntry (capabilityIndex r) \<Longrightarrow> noEmptyEntry (capabilityIndex (unindexTool toLowerCase i n t r))"
  "noEmptyEntry (keywordIndex r) \<Longrightarrow> noEmptyEntry (keywordIndex (unindexTool toLowerCase i n t r))"
  by (simp_all add: unindexTool_def Let_def unindexCategory_noEmpty
      unindexCapabilities_noEmpty unindexKeywords_noEmpty split: option.splits)

lemma coherent_unregister:
  assumes c: "coherent toLowerCase r"
    and t: "map_of (tools r) i = Some t"
    and n: "name t = Some n"
  shows "coherent toLowerCase (unindexTool toLowerCase i n t (r\<lparr>tools := AList.delete i (tools r)\<rparr>))"
proof (rule coherentI)
  let ?r' = "unindexTool toLowerCase i n t (r\<lparr>tools := AList.delete i (tools r)\<rparr>)"
  note d = coherentD [OF c]
  have look: "\<And>j. map_of (AList.delete i (tools r)) j =
      (if j = i then None else map_of (tools r) j)"
    by (simp add: delete_conv')
  have ln: "lowerName toLowerCase t = Some (toLowerCase n)"
    by (simp add: lowerName_def n)
  have own: "nameIndex r (toLowerCase n) = Some i"
    using d(3) [of "toLowerCase n" i] t ln by simp
  show "distinct (map fst (tools ?r'))"
    using d(1) by (simp add: distinct_delete)
  show "\<And>j u. map_of (tools ?r') j = Some u \<Longrightarrow> name u \<noteq> None"
    using d(2) by (auto simp: look split: if_splits)
  show "\<And>m j. nameIndex ?r' m = Some j \<longleftrightarrow>
               (\<exists>u. map_of (tools ?r') j = Some u \<and> lowerName toLowerCase u = Some m)"
  proof -
    fix m j
    show "nameIndex ?r' m = Some j \<longleftrightarrow>
               (\<exists>u. map_of (tools ?r') j = Some u \<and> lowerName toLowerCase u = Some m)"
    proof (cases "j = i")
      case True
      have "nameIndex r m = Some i \<Longrightarrow> m = toLowerCase n"
        using d(3) [of m i] t ln by simp
      then show ?thesis
        using True by (auto simp: look)
    next
      case False
      have "nameIndex r m = Some j \<Longrightarrow> m \<noteq> toLowerCase n"
        using own False by auto
      then show ?thesis
        using False d(3) [of m j] by (auto simp: look)
    qed
  qed
  show "\<And>k j. indexed (categories ?r') k j \<longleftrightarrow>
               (\<exists>u. map_of (tools ?r') j = Some u \<and> k \<in> categoryKeys u)"
    using d(4) t by (auto simp: unindexTool_categories look)
  show "\<And>k j. indexed (capabilityIndex ?r') k j \<longleftrightarrow>
               (\<exists>u. map_of (tools ?r') j = Some u \<and> k \<in> capabilityKeys toLowerCase u)"
    using d(5) t by (auto simp: unindexTool_capabilityIndex look)
  show "\<And>k j. indexed (keywordIndex ?r') k j \<longleftrightarrow>
               (\<exists>u. map_of (tools ?r') j = Some u \<and> k \<in> keywordKeys toLowerCase u)"
    using d(6) t by (auto simp: unindexTool_keywordIndex look)
  show "noEmptyEntry (categories ?r')" "noEmptyEntry (capabilityIndex ?r')"
    "noEmptyEntry (keywordIndex ?r')"
    using d(7,8,9) by (simp_all add: unindexTool_noEmpty)
qed

lemma coherent_registerTool:
  assumes "coherent toLowerCase r" and "freshRegistration toLowerCase validate d uuid r"
  shows "coherent toLowerCase (snd (registerTool toLowerCase validate uuid d r))"
proof (cases "validate d")
  case (Inl e)
  with assms(1) show ?thesis by (simp add: registerTool_def)
next
  case (Inr t)
  with assms(2) obtain n where n: "name t = Some n"
    and f: "map_of (tools r) (idOrUuid (tool_id t) uuid) = None"
       "nameIndex r (toLowerCase n) = None"
    by (auto simp: freshRegistration_def split: option.splits)
  from coherent_register [OF assms(1) f(1) n f(2)] Inr n show ?thesis
    by (simp add: registerTool_def Let_def)
qed

lemma coherent_unregisterTool:
  assumes "coherent toLowerCase r"
  shows "coherent toLowerCase (snd (unregisterTool toLowerCase ident r))"
proof (cases "resolveIdentifier toLowerCase ident r")
  case None
  with assms show ?thesis by (simp add: unregisterTool_def)
next
  case (Some i)
  show ?thesis
  proof (cases "map_of (tools r) i")
    case None
    with Some assms show ?thesis by (simp add: unregisterTool_def)
  next
    case t: (Some t)
    with coherentD(2) [OF assms] obtain n where n: "name t = Some n" by blast
    from coherent_unregister [OF assms t n] Some t n show ?thesis
      by (simp add: unregisterTool_def Let_def)
  qed
qed

lemma coherent_applyOps:
  assumes "coherent toLowerCase r" and "freshOps toLowerCase validate ops r"
  shows "coherent toLowerCase (applyOps toLowerCase validate ops r)"
  using assms
proof (induction ops arbitrary: r)
  case Nil
  then show ?case by simp
next
  case (Cons oper rest)
  show ?case
  proof (cases oper)
    case (Register d uuid)
    with Cons.prems have "coherent toLowerCase (applyOp toLowerCase validate oper r)"
      by (simp add: coherent_registerTool)
    with Cons.IH [of "applyOp toLowerCase validate oper r"] Cons.prems(2) Register show ?thesis
      by simp
  next
    case (Unregister ident)
    with Cons.prems have "coherent toLowerCase (applyOp toLowerCase validate oper r)"
      by (simp add: coherent_unregisterTool)
    with Cons.IH [of "applyOp toLowerCase validate oper r"] Cons.prems(2) Unregister show ?thesis
      by simp
  qed
qed

text \<open>
  C6 (as amended). After every sequence of \<open>registerTool\<close> and \<open>unregisterTool\<close> calls
  on the empty registry in which every registration that passes validation is fresh (the
  tool has a name whose lower-case form is not in the name index, and its id is not in the
  map), the indices are coherent with the primary map.
\<close>

theorem indices_coherent:
  assumes "freshOps toLowerCase validate ops emptyRegistry"
  shows "coherent toLowerCase (applyOps toLowerCase validate ops emptyRegistry)"
  using coherent_applyOps [OF coherent_empty assms] .


lemmas unregisterTool_eval =
  unregisterTool_def resolveIdentifier_def unindexTool_def unindexCategory_def
  removeFromIndex_def latin1LowerCase_def lowerChar_def

lemma exampleOps_fresh:
  "freshOps latin1LowerCase validateToolDefinition exampleOps emptyRegistry"
  by (simp add: exampleOps_def freshRegistration_def example_tools handlerlessTool_def
      registerTool_eval latin1LowerCase_def lowerChar_def)

lemma exampleOps_tools:
  "tools (applyOps latin1LowerCase validateToolDefinition exampleOps emptyRegistry) =
     [(''a-1'', alphaTool)]"
  by (simp add: exampleOps_def example_tools handlerlessTool_def registerTool_eval
      unregisterTool_eval)

theorem indices_coherent_witness:
  "freshOps latin1LowerCase validateToolDefinition exampleOps emptyRegistry \<and>
   tools (applyOps latin1LowerCase validateToolDefinition exampleOps emptyRegistry) =
     [(''a-1'', alphaTool)] \<and>
   coherent latin1LowerCase
     (applyOps latin1LowerCase validateToolDefinition exampleOps emptyRegistry)"
  using indices_coherent [OF exampleOps_fresh] exampleOps_fresh exampleOps_tools by simp

lemma colliding_eval:
  "tools (applyOps latin1LowerCase validateToolDefinition collidingOps emptyRegistry) =
     [(''echo-1'', echoTool), (''echo-2'', shoutTool)]"
  "nameIndex (applyOps latin1LowerCase validateToolDefinition collidingOps emptyRegistry)
     ''echo'' = Some ''echo-2''"
  by (simp_all add: collidingOps_def shoutTool_def example_tools registerTool_eval
      latin1LowerCase_def lowerChar_def)

lemma reregistering_eval:
  "tools (applyOps latin1LowerCase validateToolDefinition reregisteringOps emptyRegistry) = []"
  "nameIndex (applyOps latin1LowerCase validateToolDefinition reregisteringOps emptyRegistry)
     ''echo'' = Some ''echo-1''"
  by (simp_all add: reregisteringOps_def renamedTool_def example_tools registerTool_eval
      unregisterTool_eval)

lemma echoTool_lowerName: "lowerName latin1LowerCase echoTool = Some ''echo''"
  by (simp add: lowerName_def echoTool_def latin1LowerCase_def lowerChar_def)

text \<open>
  C6 as stated fails. After \<open>ECHO\<close> is registered over \<open>Echo\<close>, the tool \<open>echo-1\<close> is
  in the map but the name index leads from its name to \<open>echo-2\<close>. After a second
  registration under the id \<open>echo-1\<close> with another name and the unregistration of
  \<open>echo-1\<close>, the map is empty and the name index still holds \<open>echo-1\<close>.
\<close>

theorem indices_incoherent_counterexample:
  "tools (applyOps latin1LowerCase validateToolDefinition collidingOps emptyRegistry) =
     [(''echo-1'', echoTool), (''echo-2'', shoutTool)] \<and>
   lowerName latin1LowerCase echoTool = Some ''echo'' \<and>
   nameIndex (applyOps latin1LowerCase validateToolDefinition collidingOps emptyRegistry)
     ''echo'' = Some ''echo-2'' \<and>
   \<not> coherent latin1LowerCase
       (applyOps latin1LowerCase validateToolDefinition collidingOps emptyRegistry) \<and>
   tools (applyOps latin1LowerCase validateToolDefinition reregisteringOps emptyRegistry) = [] \<and>
   nameIndex (applyOps latin1LowerCase validateToolDefinition reregisteringOps emptyRegistry)
     ''echo'' = Some ''echo-1'' \<and>
   \<not> coherent latin1LowerCase
       (applyOps latin1LowerCase validateToolDefinition reregisteringOps emptyRegistry)"
proof -
  let ?collided = "applyOps latin1LowerCase validateToolDefinition collidingOps emptyRegistry"
  let ?reregistered =
    "applyOps latin1LowerCase validateToolDefinition reregisteringOps emptyRegistry"
  have a: "\<not> coherent latin1LowerCase ?collided"
  proof
    assume c: "coherent latin1LowerCase ?collided"
    have "map_of (tools ?collided) ''echo-1'' = Some echoTool"
      by (simp add: colliding_eval)
    with coherentD(3) [OF c, of "''echo''" "''echo-1''"] echoTool_lowerName colliding_eval(2)
    show False by simp
  qed
  have b: "\<not> coherent latin1LowerCase ?reregistered"
  proof
    assume c: "coherent latin1LowerCase ?reregistered"
    from coherentD(3) [OF c, of "''echo''" "''echo-1''"] reregistering_eval
    show False by simp
  qed
  show ?thesis
    using a b colliding_eval reregistering_eval echoTool_lowerName by simp
qed

text \<open>
  Names that differ by the case of an accented letter collide as well: the second
  registration of \<open>accentOps\<close> is not fresh, and it takes the name index entry of the
  first tool.
\<close>

lemma accentOps_collide:
  "\<not> freshOps latin1LowerCase validateToolDefinition accentOps emptyRegistry"
  "tools (applyOps latin1LowerCase validateToolDefinition accentOps emptyRegistry) =
     [(''e-1'', accentTool), (''e-2'', accentUpperTool)]"
  "nameIndex (applyOps latin1LowerCase validateToolDefinition accentOps emptyRegistry)
     (CHR 0xE9 # ''cole'') = Some ''e-2''"
  by (simp_all add: accentOps_def accentTool_def accentUpperTool_def plainTool_def
      freshRegistration_def registerTool_eval latin1LowerCase_def lowerChar_def)

section \<open>exportData and importData\<close>

lemma emptyRegistry_fields [simp]:
  "tools emptyRegistry = []" "usageStats emptyRegistry = []"
  by (simp_all add: emptyRegistry_def)



lemma importStats_other [simp]:
  "tools (importStats entries r) = tools r"
  "categories (importStats entries r) = categories r"
  "nameIndex (importStats entries r) = nameIndex r"
  "capabilityIndex (importStats entries r) = capabilityIndex r"
  "keywordIndex (importStats entries r) = keywordIndex r"
  "allCapabilities (importStats entries r) = allCapabilities r"
  by (induction entries arbitrary: r) simp_all




section \<open>Properties of cleanupIdleContexts\<close>

lemma delete_filter: "AList.delete k al = filter (\<lambda>p. fst p \<noteq> k) al"
  by (induction al) auto

lemma sweepContexts_result:
  "sweepContexts now m entries acc =
     (fst acc + length (filter (\<lambda>e. now - lastUpdatedMs (snd e) > m) entries),
      filter (\<lambda>p. fst p \<notin> fst ` set (filter (\<lambda>e. now - lastUpdatedMs (snd e) > m) entries))
        (snd acc))"
proof (induction entries arbitrary: acc)
  case Nil
  then show ?case by simp
next
  case (Cons entry rest)
  show ?case
    by (simp add: Cons.IH delete_filter)
qed

lemma distinct_key_determines:
  "distinct (map fst al) \<Longrightarrow> p \<in> set al \<Longrightarrow> q \<in> set al \<Longrightarrow> fst p = fst q \<Longrightarrow> p = q"
  by (metis eq_key_imp_eq_value prod.collapse)

lemma sweep_active:
  assumes "distinct (map fst active)"
  shows "filter (\<lambda>p. fst p \<notin> fst ` set (filter P active)) active = filter (\<lambda>p. \<not> P p) active"
proof (rule filter_cong [OF refl])
  fix p assume p: "p \<in> set active"
  show "(fst p \<notin> fst ` set (filter P active)) = (\<not> P p)"
  proof
    assume "fst p \<notin> fst ` set (filter P active)"
    then show "\<not> P p" using p by force
  next
    assume np: "\<not> P p"
    show "fst p \<notin> fst ` set (filter P active)"
    proof
      assume "fst p \<in> fst ` set (filter P active)"
      then obtain q where q: "q \<in> set active" "P q" "fst q = fst p" by auto
      with distinct_key_determines [OF assms p q(1)] np show False by simp
    qed
  qed
qed

lemma cleanupIdleContexts_filter:
  assumes "distinct (map fst active)"
  shows "cleanupIdleContexts maxAgeMs now active =
           (length (filter (\<lambda>entry. now - lastUpdatedMs (snd entry) >
                      (case maxAgeMs of None \<Rightarrow> 30 * 60 * 1000 | Some m \<Rightarrow> m)) active),
            filter (\<lambda>entry. \<not> (now - lastUpdatedMs (snd entry) >
                      (case maxAgeMs of None \<Rightarrow> 30 * 60 * 1000 | Some m \<Rightarrow> m))) active)"
  unfolding cleanupIdleContexts_def sweepContexts_result
  using sweep_active [OF assms] by simp


lemmas example_contexts =
  exampleActive_def staleContext_def recentContext_def freshContext_def


text \<open>
  C8. The sweep removes from \<open>activeContexts\<close> exactly the contexts with
  \<open>now - lastUpdated > maxAgeMs\<close> and returns their number; the others stay as they are, in
  their order. \<open>maxAgeMs\<close> defaults to 30 minutes, and the timer calls the sweep with the
  default every 15 minutes.
\<close>

theorem cleanupIdleContexts_evicts_idle:
  assumes "distinct (map fst active)"
  shows "snd (cleanupIdleContexts maxAgeMs now active) =
           filter (\<lambda>entry. \<not> (now - lastUpdatedMs (snd entry) >
                     (case maxAgeMs of None \<Rightarrow> 30 * minuteMs | Some m \<Rightarrow> m))) active \<and>
         fst (cleanupIdleContexts maxAgeMs now active) =
           length (filter (\<lambda>entry. now - lastUpdatedMs (snd entry) >
                     (case maxAgeMs of None \<Rightarrow> 30 * minuteMs | Some m \<Rightarrow> m)) active) \<and>
         periodicCleanup now active = cleanupIdleContexts (Some (30 * minuteMs)) now active \<and>
         cleanupIntervalMs = 15 * minuteMs"
proof -
  have d: "(case maxAgeMs of None \<Rightarrow> 30 * 60 * 1000 | Some m \<Rightarrow> m) =
           (case maxAgeMs of None \<Rightarrow> 30 * minuteMs | Some m \<Rightarrow> m)"
    by (simp add: minuteMs_def split: option.splits)
  have p: "periodicCleanup now active = cleanupIdleContexts (Some (30 * minuteMs)) now active"
    by (simp add: periodicCleanup_def cleanupIdleContexts_def minuteMs_def)
  show ?thesis
    using cleanupIdleContexts_filter [OF assms, of maxAgeMs now] p
    unfolding d by (simp add: minuteMs_def cleanupIntervalMs_def)
qed

theorem cleanupIdleContexts_evicts_idle_witness:
  "distinct (map fst exampleActive) \<and>
   snd (cleanupIdleContexts None 1793000600000 exampleActive) = [(''s2'', recentContext)] \<and>
   fst (cleanupIdleContexts None 1793000600000 exampleActive) = 1"
proof -
  have d: "distinct (map fst exampleActive)"
    by (simp add: exampleActive_def)
  from cleanupIdleContexts_evicts_idle [OF d, of None 1793000600000] d show ?thesis
    by (simp add: example_contexts lastUpdatedMs_def minuteMs_def)
qed

section \<open>Properties of processQuery\<close>

lemma getOrCreateContext_present:
  "map_of active sid = Some c \<Longrightarrow> getOrCreateContext env sid active = (c, active)"
  by (simp add: getOrCreateContext_def)

lemma getOrCreateContext_absent:
  "map_of active sid = None \<Longrightarrow>
   \<exists>c. getOrCreateContext env sid active = (c, AList.update sid c active) \<and>
       (c = created env \<or> retrieved env = Inr (Some c))"
  by (auto simp: getOrCreateContext_def split: sum.splits option.splits)

lemma recordExchange_shape:
  "\<exists>c'. snd (recordExchange env sid text response executionResults c4 active1) =
           AList.update sid c' active1 \<and>
        lastUpdated c' = lastUpdated c4 \<and>
        ((conversationHistory c' = conversationHistory c4 @ [userTurn env text] \<and>
          (response = None \<or> toolsUsedObjects executionResults = None)) \<or>
         (\<exists>a. role a = Assistant \<and>
            conversationHistory c' = conversationHistory c4 @ [userTurn env text, a]))"
proof -
  let ?c5 = "pushTurn (userTurn env text) c4"
  have c5: "lastUpdated ?c5 = lastUpdated c4"
    "conversationHistory ?c5 = conversationHistory c4 @ [userTurn env text]"
    by (simp_all add: pushTurn_def)
  show ?thesis
  proof (cases "response = None \<or> toolsUsedObjects executionResults = None")
    case True
    then have "snd (recordExchange env sid text response executionResults c4 active1) =
                 AList.update sid ?c5 active1"
      by (auto simp: recordExchange_def Let_def split: option.splits)
    with c5 True show ?thesis
      by blast
  next
    case False
    then obtain resp used where shaped: "response = Some resp"
      "toolsUsedObjects executionResults = Some used"
      by auto
    let ?c6 = "pushTurn (assistantTurn env resp used) ?c5"
    have "snd (recordExchange env sid text response executionResults c4 active1) =
            AList.update sid ?c6 active1"
      using shaped by (simp add: recordExchange_def Let_def split: sum.splits)
    moreover have "lastUpdated ?c6 = lastUpdated c4"
      by (simp add: pushTurn_def)
    moreover have "role (assistantTurn env resp used) = Assistant"
      by (simp add: assistantTurn_def)
    moreover have "conversationHistory ?c6 =
        conversationHistory c4 @ [userTurn env text, assistantTurn env resp used]"
      by (simp add: pushTurn_def)
    ultimately show ?thesis
      by blast
  qed
qed

text \<open>
  What one call does to the context of its session: it leaves \<open>lastUpdated\<close> as it is, and
  appends nothing, or the user turn alone when step 6 cannot read the results, or both
  turns.
\<close>

lemma processQuery_shape:
  assumes "getOrCreateContext env (querySession env q) active = (c0, active1)"
  shows "\<exists>c'. snd (processQuery env q active) = AList.update (querySession env q) c' active1 \<and>
           lastUpdated c' = lastUpdated c0 \<and>
           (conversationHistory c' = conversationHistory c0 \<or>
            (conversationHistory c' = conversationHistory c0 @ [userTurn env (queryText q)] \<and>
             \<not> shapedResults env) \<or>
            (\<exists>a. role a = Assistant \<and>
               conversationHistory c' =
                 conversationHistory c0 @ [userTurn env (queryText q), a]))"
proof -
  let ?c1 = "c0\<lparr>currentQuery := Some (queryText q)\<rparr>"
  show ?thesis
  proof (cases "analysed env")
    case (Inl e)
    with assms have "snd (processQuery env q active) =
        AList.update (querySession env q) ?c1 active1"
      by (simp add: processQuery_def Let_def)
    then show ?thesis
      by (intro exI [of _ ?c1]) simp
  next
    case analysed: (Inr analysis)
    obtain intent entities where analysis: "analysis = (intent, entities)"
      by (cases analysis)
    let ?c2 = "?c1\<lparr>currentIntent := Some intent, currentEntities := Some entities\<rparr>"
    show ?thesis
    proof (cases "planned env")
      case (Inl e)
      with assms analysed analysis have "snd (processQuery env q active) =
          AList.update (querySession env q) ?c2 active1"
        by (simp add: processQuery_def Let_def)
      then show ?thesis
        by (intro exI [of _ ?c2]) simp
    next
      case planned: (Inr plan)
      let ?c3 = "?c2\<lparr>currentPlan := Some plan\<rparr>"
      show ?thesis
      proof (cases "executed env")
        case (Inl e)
        with assms analysed analysis planned have "snd (processQuery env q active) =
            AList.update (querySession env q) ?c3 active1"
          by (simp add: processQuery_def Let_def)
        then show ?thesis
          by (intro exI [of _ ?c3]) simp
      next
        case executed: (Inr executionResults)
        let ?c4 = "?c3\<lparr>lastExecutionResults := Some executionResults\<rparr>"
        show ?thesis
        proof (cases "synthesized env")
          case (Inl e)
          with assms analysed analysis planned executed
          have "snd (processQuery env q active) =
              AList.update (querySession env q) ?c4 active1"
            by (simp add: processQuery_def Let_def)
          then show ?thesis
            by (intro exI [of _ ?c4]) simp
        next
          case synthesized: (Inr response)
          have p: "processQuery env q active =
                     recordExchange env (querySession env q) (queryText q) response
                       executionResults ?c4 active1"
            using assms analysed analysis planned executed synthesized
            by (simp add: processQuery_def Let_def)
          have unshaped: "\<not> shapedResults env"
            if "response = None \<or> toolsUsedObjects executionResults = None"
            using that executed synthesized by (auto simp: shapedResults_def)
          from recordExchange_shape [of env "querySession env q" "queryText q" response
              executionResults ?c4 active1]
          obtain c' where c':
            "snd (recordExchange env (querySession env q) (queryText q) response
                    executionResults ?c4 active1) =
               AList.update (querySession env q) c' active1"
            "lastUpdated c' = lastUpdated ?c4"
            "(conversationHistory c' = conversationHistory ?c4 @ [userTurn env (queryText q)] \<and>
              (response = None \<or> toolsUsedObjects executionResults = None)) \<or>
             (\<exists>a. role a = Assistant \<and>
                conversationHistory c' =
                  conversationHistory ?c4 @ [userTurn env (queryText q), a])"
            by blast
          from c'(3) unshaped
          have "(conversationHistory c' = conversationHistory c0 @ [userTurn env (queryText q)] \<and>
                 \<not> shapedResults env) \<or>
                (\<exists>a. role a = Assistant \<and>
                   conversationHistory c' =
                     conversationHistory c0 @ [userTurn env (queryText q), a])"
            by auto
          with c'(1,2) show ?thesis
            unfolding p by (intro exI [of _ c']) simp
        qed
      qed
    qed
  qed
qed




lemma in_set_map_of:
  "map_of al k = Some v \<Longrightarrow> (k, v) \<in> set al"
  by (rule map_of_SomeD)












section \<open>Contexts without lastUpdated\<close>

lemma processQuery_distinct:
  assumes "distinct (map fst active)"
  shows "distinct (map fst (snd (processQuery env q active)))"
proof -
  obtain c0 active1 where goc: "getOrCreateContext env (querySession env q) active = (c0, active1)"
    by (cases "getOrCreateContext env (querySession env q) active")
  have "distinct (map fst active1)"
  proof (cases "map_of active (querySession env q)")
    case None
    from getOrCreateContext_absent [OF None, of env] goc assms show ?thesis
      by (auto simp: distinct_update)
  next
    case (Some c)
    with getOrCreateContext_present [OF Some, of env] goc assms show ?thesis by simp
  qed
  with processQuery_shape [OF goc] show ?thesis
    by (auto simp: distinct_update)
qed

lemma processQuery_lastUpdated:
  assumes "map_of active sid = Some c"
  shows "\<exists>c'. map_of (snd (processQuery env q active)) sid = Some c' \<and>
              lastUpdated c' = lastUpdated c"
proof -
  obtain c0 active1 where goc: "getOrCreateContext env (querySession env q) active = (c0, active1)"
    by (cases "getOrCreateContext env (querySession env q) active")
  from processQuery_shape [OF goc] obtain c' where
    s: "snd (processQuery env q active) = AList.update (querySession env q) c' active1"
    and l: "lastUpdated c' = lastUpdated c0"
    by blast
  show ?thesis
  proof (cases "querySession env q = sid")
    case True
    with getOrCreateContext_present [OF assms, of env] goc have "c0 = c" by simp
    with s l True show ?thesis by (simp add: update_conv')
  next
    case False
    have "map_of active1 sid = Some c"
    proof (cases "map_of active (querySession env q)")
      case None
      from getOrCreateContext_absent [OF None, of env] goc False assms show ?thesis
        by (auto simp: update_conv')
    next
      case (Some d)
      with getOrCreateContext_present [OF Some, of env] goc assms show ?thesis by simp
    qed
    with s False show ?thesis by (simp add: update_conv')
  qed
qed

lemma runQueries_lastUpdated:
  assumes "\<forall>ev \<in> set evs. isQuery ev"
    and "distinct (map fst active)"
    and "map_of active sid = Some c"
  shows "distinct (map fst (runEvents evs active)) \<and>
         (\<exists>c'. map_of (runEvents evs active) sid = Some c' \<and> lastUpdated c' = lastUpdated c)"
  using assms
proof (induction evs arbitrary: active c)
  case Nil
  then show ?case by simp
next
  case (Cons ev evs)
  from Cons.prems(1) obtain env q where ev: "ev = Query env q"
    by (cases ev) (auto simp: isQuery_def)
  from processQuery_lastUpdated [OF Cons.prems(3), of env q] obtain c1 where
    c1: "map_of (snd (processQuery env q active)) sid = Some c1" "lastUpdated c1 = lastUpdated c"
    by blast
  have q: "\<forall>ev \<in> set evs. isQuery ev"
    using Cons.prems(1) by simp
  from Cons.IH [OF q processQuery_distinct [OF Cons.prems(2), of env q] c1(1)]
  have "distinct (map fst (runEvents evs (snd (processQuery env q active)))) \<and>
        (\<exists>c'. map_of (runEvents evs (snd (processQuery env q active))) sid = Some c' \<and>
              lastUpdated c' = lastUpdated c1)" .
  then show ?case
    unfolding ev runEvents.simps runEvent.simps c1(2) .
qed

lemma map_of_filter_None:
  assumes "distinct (map fst al)" and "map_of al k = Some v" and "\<not> Q (k, v)"
  shows "map_of (filter Q al) k = None"
proof -
  have "k \<notin> fst ` set (filter Q al)"
  proof
    assume "k \<in> fst ` set (filter Q al)"
    then obtain w where w: "(k, w) \<in> set al" "Q (k, w)" by auto
    from map_of_is_SomeI [OF assms(1) w(1)] assms(2) have "w = v" by simp
    with w(2) assms(3) show False by simp
  qed
  then show ?thesis by (simp add: map_of_eq_None_iff)
qed

text \<open>
  C10 (as amended). \<open>processQuery\<close> never writes \<open>lastUpdated\<close>: a context in which the
  property is absent still lacks it after any number of queries, its idle age is taken from
  the epoch, and a sweep with \<open>maxAgeMs < now\<close> evicts it.
\<close>

theorem absent_lastUpdated_evicted:
  assumes "distinct (map fst active)"
    and "map_of active sessionId = Some ctx"
    and "lastUpdated ctx = None"
    and "\<forall>ev \<in> set evs. isQuery ev"
    and "maxAgeMs < now"
  shows "(\<exists>ctx'. map_of (runEvents evs active) sessionId = Some ctx' \<and> lastUpdated ctx' = None) \<and>
         map_of (snd (cleanupIdleContexts (Some maxAgeMs) now (runEvents evs active))) sessionId
           = None"
proof -
  from runQueries_lastUpdated [OF assms(4) assms(1) assms(2)] assms(3) obtain ctx' where
    d: "distinct (map fst (runEvents evs active))"
    and c: "map_of (runEvents evs active) sessionId = Some ctx'" "lastUpdated ctx' = None"
    by auto
  let ?keep = "\<lambda>entry. \<not> (now - lastUpdatedMs (snd entry) > maxAgeMs)"
  have "\<not> ?keep (sessionId, ctx')"
    using c(2) assms(5) by (simp add: lastUpdatedMs_def)
  then have "map_of (filter ?keep (runEvents evs active)) sessionId = None"
    by (rule map_of_filter_None [OF d c(1)])
  moreover have "snd (cleanupIdleContexts (Some maxAgeMs) now (runEvents evs active)) =
      filter ?keep (runEvents evs active)"
    using cleanupIdleContexts_filter [OF d, of "Some maxAgeMs" now] by simp
  ultimately show ?thesis
    using c by simp
qed


theorem absent_lastUpdated_evicted_witness:
  "distinct (map fst [(''s3'', freshContext)]) \<and>
   map_of [(''s3'', freshContext)] ''s3'' = Some freshContext \<and>
   lastUpdated freshContext = None \<and>
   list_all isQuery exampleEvents \<and>
   (1800000::int) < 1793000600000 \<and>
   map_of (snd (cleanupIdleContexts (Some 1800000) 1793000600000
                  (runEvents exampleEvents [(''s3'', freshContext)]))) ''s3'' = None"
proof -
  have q: "\<forall>ev \<in> set exampleEvents. isQuery ev"
    by (simp add: exampleEvents_def isQuery_def)
  have l: "lastUpdated freshContext = None"
    by (simp add: freshContext_def)
  from absent_lastUpdated_evicted [of "[(''s3'', freshContext)]" "''s3''" freshContext
      exampleEvents 1800000 1793000600000] q l
  show ?thesis by (simp add: list_all_iff)
qed

text \<open>
  C10 as stated, for every positive \<open>maxAgeMs\<close>, fails: with \<open>maxAgeMs\<close> beyond the
  current time in milliseconds the context without \<open>lastUpdated\<close> stays.
\<close>

theorem absent_lastUpdated_large_maxAge_counterexample:
  "lastUpdated freshContext = None \<and> (0::int) < 2000000000000 \<and>
   cleanupIdleContexts (Some 2000000000000) 1793000600000 [(''s3'', freshContext)] =
     (0, [(''s3'', freshContext)])"
  by (simp add: cleanupIdleContexts_def freshContext_def lastUpdatedMs_def)


end
